theory Spec2Isabelle
  imports Complex_Main
begin

section \<open>Number model\<close>

text \<open>
  The simulation computes on IEEE double columns.  The embedding uses exact real
  arithmetic for every finite value, so a property proved here holds for the code
  "up to floating tolerance".  Where the code can leave the finite numbers (a division
  by zero, which numpy answers with inf or NaN and a warning instead of an exception),
  the model makes the value explicit (\<open>Inf\<close>, \<open>NaN\<close>) instead of using HOL's
  \<open>x / 0 = 0\<close>.  Random draws are inputs of the model: a uniform draw is a real in
  \<open>[0, 1)\<close> handed to the function that consumes it.
\<close>

section \<open>Tax engine: the bracket tax function\<close>

text \<open>
  A bracket is the tuple \<open>(lower, upper, rate)\<close> of the source; \<open>float("inf")\<close> as
  upper bound is \<open>None\<close>.
\<close>

type_synonym bracket = "real \<times> real option \<times> real"

definition catalonia_scale :: "bracket list" where
  "catalonia_scale =
    [(0, Some 167129.45, 0.0021), (167129.45, Some 334252.88, 0.00315),
     (334252.88, Some 668499.75, 0.00525), (668499.75, Some 1336999.5, 0.00945),
     (1336999.5, Some 2673999.0, 0.01365), (2673999.0, Some 5347998.03, 0.01785),
     (5347998.03, Some 10695996.06, 0.02205), (10695996.06, Some 19999999.99, 0.02525),
     (19999999.99, None, 0.0348)]"

definition madrid_scale :: "bracket list" where
  "madrid_scale =
    [(0, Some 167129.45, 0.002), (167129.45, Some 334252.88, 0.003),
     (334252.88, Some 668499.75, 0.005), (668499.75, Some 1336999.5, 0.009),
     (1336999.5, Some 2673999.0, 0.013), (2673999.0, Some 5347998.03, 0.017),
     (5347998.03, Some 10695996.06, 0.021), (10695996.06, None, 0.025)]"

definition extremadura_scale :: "bracket list" where
  "extremadura_scale =
    [(0, Some 167129.45, 0.002), (167129.45, Some 334252.88, 0.003),
     (334252.88, Some 668499.75, 0.005), (668499.75, Some 1336999.5, 0.009),
     (1336999.5, Some 2673999.0, 0.013), (2673999.0, Some 5347998.03, 0.017),
     (5347998.03, Some 10695996.06, 0.021), (10695996.06, None, 0.0375)]"

definition galicia_scale :: "bracket list" where
  "galicia_scale =
    [(0, Some 167129.45, 0.002), (167129.45, Some 334252.88, 0.003),
     (334252.88, Some 668499.75, 0.005), (668499.75, Some 1336999.5, 0.009),
     (1336999.5, Some 2673999.0, 0.013), (2673999.0, Some 5347998.03, 0.017),
     (5347998.03, Some 10695996.06, 0.021), (10695996.06, None, 0.035)]"

definition asturias_scale :: "bracket list" where
  "asturias_scale =
    [(0, Some 167129.45, 0.002), (167129.45, Some 334252.88, 0.003),
     (334252.88, Some 668499.75, 0.005), (668499.75, Some 1336999.5, 0.009),
     (1336999.5, Some 2673999.0, 0.013), (2673999.0, Some 5347998.03, 0.017),
     (5347998.03, Some 10695996.06, 0.021), (10695996.06, None, 0.025)]"

definition valencia_scale :: "bracket list" where
  "valencia_scale =
    [(0, Some 167129.45, 0.0025), (167129.45, Some 334252.88, 0.0035),
     (334252.88, Some 668499.75, 0.0055), (668499.75, Some 1336999.5, 0.0095),
     (1336999.5, Some 2673999.0, 0.0135), (2673999.0, Some 5347998.03, 0.0175),
     (5347998.03, Some 10695996.06, 0.0215), (10695996.06, None, 0.035)]"

definition default_scale :: "bracket list" where
  "default_scale =
    [(0, Some 167129.45, 0.002), (167129.45, Some 334252.88, 0.003),
     (334252.88, Some 668499.75, 0.005), (668499.75, Some 1336999.51, 0.009),
     (1336999.51, Some 2673999.01, 0.013), (2673999.01, Some 5347998.03, 0.017),
     (5347998.03, Some 10695996.06, 0.021), (10695996.06, None, 0.025)]"

text \<open>The dict \<open>regional_scales\<close>: seven string keys, looked up as they are spelled.\<close>

definition regional_scales :: "string \<rightharpoonup> bracket list" where
  "regional_scales = map_of
    [(''Catalonia'', catalonia_scale), (''Madrid'', madrid_scale),
     (''Extremadura'', extremadura_scale), (''Galicia'', galicia_scale),
     (''Asturias'', asturias_scale), (''Valencia'', valencia_scale),
     (''default'', default_scale)]"

text \<open>\<open>brackets = regional_scales.get(region, regional_scales["default"])\<close>\<close>

definition brackets_for :: "string \<Rightarrow> bracket list" where
  "brackets_for region =
    (case regional_scales region of
       Some bs \<Rightarrow> bs
     | None \<Rightarrow> the (regional_scales ''default''))"

text \<open>\<open>min(base, upper)\<close> with an upper bound that may be infinite.\<close>

fun min_upper :: "real \<Rightarrow> real option \<Rightarrow> real" where
  "min_upper base None = base"
| "min_upper base (Some upper) = min base upper"

text \<open>
  The loop over the brackets: the accumulator \<open>tax\<close> is threaded through, and the
  \<open>else: break\<close> branch returns it at the first bracket whose lower bound the base
  does not exceed.
\<close>

fun ip_loop :: "real \<Rightarrow> bracket list \<Rightarrow> real \<Rightarrow> real" where
  "ip_loop base [] tax = tax"
| "ip_loop base ((lower, upper, rate) # bs) tax =
    (if base > lower
     then ip_loop base bs (tax + (min_upper base upper - lower) * rate)
     else tax)"

definition calculate_ip_tax :: "real \<Rightarrow> string \<Rightarrow> real" where
  "calculate_ip_tax base region = ip_loop base (brackets_for region) 0"

text \<open>
  What the specification asks of a bracket table: it starts at \<open>lo\<close>, every bracket is
  non-empty (strictly ascending), each upper bound is the next lower bound (gap-free),
  and the last bracket, and only the last, is unbounded.
\<close>

fun ascending_gap_free :: "real \<Rightarrow> bracket list \<Rightarrow> bool" where
  "ascending_gap_free lo [] = False"
| "ascending_gap_free lo ((lower, None, rate) # bs) = (lower = lo \<and> bs = [])"
| "ascending_gap_free lo ((lower, Some upper, rate) # bs) =
    (lower = lo \<and> lower < upper \<and> ascending_gap_free upper bs)"

text \<open>
  The closed form of the loop on an ascending table: every bracket contributes its rate
  times the part of \<open>[lower, upper]\<close> below the base.
\<close>

fun bracket_sum :: "real \<Rightarrow> bracket list \<Rightarrow> real" where
  "bracket_sum base [] = 0"
| "bracket_sum base ((lower, upper, rate) # bs) =
    (min_upper (max base lower) upper - lower) * rate + bracket_sum base bs"

definition rates_nonneg :: "bracket list \<Rightarrow> bool" where
  "rates_nonneg bs = list_all (\<lambda>(lower, upper, rate). 0 \<le> rate) bs"

text \<open>
  \<open>b\<close> lies in the bracket \<open>(lower, upper, rate)\<close>, both ends included (the function is
  continuous, so the end points belong to both neighbours).
\<close>

fun in_bracket :: "real \<Rightarrow> bracket \<Rightarrow> bool" where
  "in_bracket b (lower, None, rate) = (lower \<le> b)"
| "in_bracket b (lower, Some upper, rate) = (lower \<le> b \<and> b \<le> upper)"

section \<open>Tax engine: income tax and the joint cap\<close>

text \<open>
  \<open>simulate_pit\<close> on one income: six (limit, rate) pairs, the last limit infinite;
  \<open>last_limit\<close> and \<open>taxes\<close> are the loop's two variables.  After the infinite
  limit \<open>last_limit\<close> is infinite, and a later pair would add \<open>max(-inf, 0) * rate = 0\<close>.
\<close>

definition pit_brackets :: "(real option \<times> real) list" where
  "pit_brackets =
    [(Some 12450, 0.19), (Some 20200, 0.24), (Some 35200, 0.30),
     (Some 60000, 0.37), (Some 300000, 0.45), (None, 0.47)]"

fun pit_loop :: "real \<Rightarrow> (real option \<times> real) list \<Rightarrow> real \<Rightarrow> real \<Rightarrow> real" where
  "pit_loop income [] last_limit taxes = taxes"
| "pit_loop income ((None, rate) # bs) last_limit taxes =
    taxes + max (income - last_limit) 0 * rate"
| "pit_loop income ((Some limit, rate) # bs) last_limit taxes =
    pit_loop income bs limit (taxes + max (min income limit - last_limit) 0 * rate)"

definition simulate_pit :: "real \<Rightarrow> real" where
  "simulate_pit income = pit_loop income pit_brackets 0 0"

text \<open>
  The joint cap, written twice in the source with the same body
  (\<open>apply_tax_cap_and_adjustments\<close> and the end of \<open>run_tax_simulation\<close>):
  \<open>Cap = 0.60 * Income\<close>, \<open>over_limit = Wealth_Tax + PIT_Liability > Cap\<close>, and on the
  rows over the limit \<open>Wealth_Tax = max(0.2 * Wealth_Tax, Cap - PIT_Liability)\<close>.
\<close>

definition over_limit :: "real \<Rightarrow> real \<Rightarrow> real \<Rightarrow> bool" where
  "over_limit income pit wealth_tax = (wealth_tax + pit > 0.60 * income)"

definition joint_cap :: "real \<Rightarrow> real \<Rightarrow> real \<Rightarrow> real" where
  "joint_cap income pit wealth_tax =
    (if over_limit income pit wealth_tax
     then max (0.2 * wealth_tax) (0.60 * income - pit)
     else wealth_tax)"

section \<open>Strings\<close>

text \<open>
  \<open>str.lower()\<close> and \<open>str.strip()\<close> on ASCII text: the 26 capital letters are
  mapped to small ones, and blanks, tabs, line feeds, vertical tabs, form feeds and
  carriage returns are removed at both ends.  Region names are ASCII after the
  loaders' normalisation.
\<close>

definition lower_char :: "char \<Rightarrow> char" where
  "lower_char c =
    (case map_of (zip ''ABCDEFGHIJKLMNOPQRSTUVWXYZ'' ''abcdefghijklmnopqrstuvwxyz'') c of
       Some l \<Rightarrow> l
     | None \<Rightarrow> c)"

definition py_lower :: "string \<Rightarrow> string" where
  "py_lower s = map lower_char s"

definition is_space :: "char \<Rightarrow> bool" where
  "is_space c = (c \<in> set [CHR '' '', CHR 0x09, CHR 0x0A, CHR 0x0B, CHR 0x0C, CHR 0x0D])"

definition py_strip :: "string \<Rightarrow> string" where
  "py_strip s = rev (dropWhile is_space (rev (dropWhile is_space s)))"

section \<open>Tax engine and behavioural module, one unit at a time\<close>

text \<open>
  Every statement of \<open>run_tax_simulation\<close>, \<open>assign_erosion\<close> and
  \<open>apply_migration_module\<close> is a column operation that reads and writes one row at a
  time, so the table functions are the map of the row functions below.  A column that the
  data frame may lack is an \<open>option\<close>.
\<close>

record tax_unit =
  Region :: string
  Total_Assets :: real
  Total_Assets_Pareto :: "real option"
  Debt_Ratio :: real
  Real_Asset_Ratio :: real
  Financial_Asset_Ratio :: real
  Business_Asset_Ratio :: real
  Income :: real
  Wealth_Rank :: real
  Final_Weight :: real

record taxed_unit =
  T_Region :: string
  T_Income :: real
  T_Wealth_Rank :: real
  T_Final_Weight :: real
  T_Real_Asset_Ratio :: real
  T_Financial_Asset_Ratio :: real
  T_Business_Asset_Ratio :: real
  Adj_Net_Wealth :: real
  Net_Tax_Base :: real
  Is_Taxpayer :: bool
  Erosion_Factor :: real
  Dropout_Prob :: real
  Dropout :: nat
  Taxable_Wealth_Baseline :: real
  Taxable_Wealth_Eroded :: real
  Wealth_Tax :: real
  PIT_Liability :: real
  Cap :: real
  Migration_Prob :: "real option"
  Migration_Exit :: "bool option"
  Wealth_Tax_Baseline :: "real option"

text \<open>\<open>np.select\<close> on the wealth rank: the first condition that holds decides.\<close>

definition base_erosion :: "real \<Rightarrow> real" where
  "base_erosion wealth_rank =
    (if wealth_rank > 0.999 then 0.35
     else if wealth_rank > 0.99 then 0.25
     else if wealth_rank > 0.90 then 0.15
     else if wealth_rank > 0.75 then 0.07
     else 0.02)"

definition erosion_modifier :: "real \<Rightarrow> real \<Rightarrow> real \<Rightarrow> real \<Rightarrow> real \<Rightarrow> real" where
  "erosion_modifier business_ratio real_ratio financial_ratio income adj_net_wealth =
    1.0 + 0.10 * of_bool (business_ratio > 0.2)
        + 0.02 * of_bool (real_ratio > 0.4)
        + 0.08 * of_bool (financial_ratio > 0.4)
        + 0.05 * of_bool (income < 0.6 * adj_net_wealth)"

definition dropout_prob :: "real \<Rightarrow> real" where
  "dropout_prob nw =
    (if nw < 2000000 then 0.0
     else if nw < 10000000 then (nw - 2000000) / 8000000 * 0.10
     else 0.10 + min ((nw - 10000000) / 90000000 * 0.20) 0.20)"

text \<open>
  \<open>np.random.binomial(1, p)\<close> is a Bernoulli draw: with the uniform draw \<open>u\<close> it is 1
  exactly when \<open>u < p\<close>, so never 1 when \<open>p = 0\<close>.
\<close>

definition binomial1 :: "real \<Rightarrow> real \<Rightarrow> nat" where
  "binomial1 u p = (if u < p then 1 else 0)"

text \<open>
  The three columns \<open>assign_erosion\<close> writes (\<open>Erosion_Factor\<close>, \<open>Dropout_Prob\<close>,
  \<open>Dropout\<close>) from the columns it reads.
\<close>

definition assign_erosion_columns ::
  "real \<Rightarrow> bool \<Rightarrow> real \<Rightarrow> real \<Rightarrow> real \<Rightarrow> real \<Rightarrow> real \<Rightarrow> real \<Rightarrow> real \<Rightarrow> real \<times> real \<times> nat" where
  "assign_erosion_columns max_erosion base_dropouts u wealth_rank business_ratio real_ratio
      financial_ratio income adj_net_wealth =
    (let erosion_factor =
           min (base_erosion wealth_rank
                 * erosion_modifier business_ratio real_ratio financial_ratio income adj_net_wealth)
               max_erosion
     in if base_dropouts
        then (erosion_factor, dropout_prob adj_net_wealth,
              binomial1 u (dropout_prob adj_net_wealth))
        else (erosion_factor, 0.0, 0))"

definition assign_erosion :: "real \<Rightarrow> bool \<Rightarrow> real \<Rightarrow> taxed_unit \<Rightarrow> taxed_unit" where
  "assign_erosion max_erosion base_dropouts u row =
    (case assign_erosion_columns max_erosion base_dropouts u (T_Wealth_Rank row)
            (T_Business_Asset_Ratio row) (T_Real_Asset_Ratio row) (T_Financial_Asset_Ratio row)
            (T_Income row) (Adj_Net_Wealth row) of
       (erosion_factor, prob, dropout) \<Rightarrow>
         row\<lparr>Erosion_Factor := erosion_factor, Dropout_Prob := prob, Dropout := dropout\<rparr>)"

text \<open>\<open>exemption_map\<close> with \<open>.map(...).fillna(700_000)\<close>.\<close>

definition exemption_map :: "string \<rightharpoonup> real" where
  "exemption_map = map_of
    [(''catalonia'', 500000), (''extremadura'', 500000), (''valencia'', 500000),
     (''asturias'', 700000), (''galicia'', 700000), (''madrid'', 700000)]"

definition personal_exemption :: "string \<Rightarrow> real" where
  "personal_exemption region = (case exemption_map region of Some e \<Rightarrow> e | None \<Rightarrow> 700000)"

text \<open>
  The columns \<open>run_tax_simulation\<close> computes before the erosion, each from the unit's
  input columns, in the order of the source.  \<open>Business_Exemption\<close> stays 0.0: the mask
  \<open>eligible\<close> (with its random draw) is printed and never read.  \<open>Region_Scale\<close> is
  written and never read.
\<close>

definition total_assets_col :: "tax_unit \<Rightarrow> real" where
  "total_assets_col h = (case Total_Assets_Pareto h of Some p \<Rightarrow> p | None \<Rightarrow> Total_Assets h)"

definition debts_col :: "tax_unit \<Rightarrow> real" where
  "debts_col h = total_assets_col h * Debt_Ratio h"

definition adj_real_assets_col :: "tax_unit \<Rightarrow> real" where
  "adj_real_assets_col h = (total_assets_col h * Real_Asset_Ratio h) * 0.75"

definition adj_financial_assets_col :: "tax_unit \<Rightarrow> real" where
  "adj_financial_assets_col h = total_assets_col h * Financial_Asset_Ratio h"

definition business_exemption_col :: "tax_unit \<Rightarrow> real" where
  "business_exemption_col h = 0.0"

definition primary_residence_exempt_col :: "tax_unit \<Rightarrow> real" where
  "primary_residence_exempt_col h = min (adj_real_assets_col h) 300000"

text \<open>
  \<open>Adj_Business_Assets\<close> after the reclassification
  (\<open>Business_Reclass = 0.2 * Adj_Business_Assets\<close> where the business ratio exceeds 0.2,
  else 0.0), and the totals recomputed from it.
\<close>

definition adj_business_assets_col :: "tax_unit \<Rightarrow> real" where
  "adj_business_assets_col h =
    (let adj_business_assets = (total_assets_col h * Business_Asset_Ratio h) * 0.70;
         business_reclass =
           (if Business_Asset_Ratio h > 0.2 then adj_business_assets * 0.2 else 0.0)
     in adj_business_assets - business_reclass)"

definition adj_total_assets_col :: "tax_unit \<Rightarrow> real" where
  "adj_total_assets_col h =
    adj_real_assets_col h + adj_financial_assets_col h + adj_business_assets_col h"

definition adj_net_wealth_col :: "tax_unit \<Rightarrow> real" where
  "adj_net_wealth_col h = adj_total_assets_col h - debts_col h"

definition gross_tax_base_col :: "tax_unit \<Rightarrow> real" where
  "gross_tax_base_col h =
    adj_net_wealth_col h - primary_residence_exempt_col h - business_exemption_col h"

definition net_tax_base_col :: "tax_unit \<Rightarrow> real" where
  "net_tax_base_col h = max (gross_tax_base_col h - personal_exemption (Region h)) 0"

definition is_declarant_col :: "tax_unit \<Rightarrow> bool" where
  "is_declarant_col h = (net_tax_base_col h > 0 \<or> adj_total_assets_col h > 2000000)"

text \<open>
  After \<open>assign_erosion\<close>: the income of a liquid-heavy unit times 0.95; the erosion
  factor times 1.05 for \<open>Business_High\<close> and times 1.10 for \<open>Business_Low\<close>, then
  clipped at 0.3.
\<close>

definition bumped_income :: "tax_unit \<Rightarrow> real" where
  "bumped_income h = (if Financial_Asset_Ratio h > 0.4 then Income h * 0.95 else Income h)"

definition bumped_erosion :: "tax_unit \<Rightarrow> real \<Rightarrow> real" where
  "bumped_erosion h erosion_factor =
    (let business_high = (Business_Asset_Ratio h > 0.2);
         business_low = (\<not> business_high);
         erosion1 = (if business_high then erosion_factor * 1.05 else erosion_factor);
         erosion2 = (if business_low then erosion1 * 1.10 else erosion1)
     in min erosion2 0.3)"

definition taxable_wealth_col :: "tax_unit \<Rightarrow> real" where
  "taxable_wealth_col h =
    max (adj_net_wealth_col h - personal_exemption (Region h)
           - primary_residence_exempt_col h - business_exemption_col h) 0"

text \<open>
  \<open>run_tax_simulation\<close> up to and including \<open>PIT_Liability\<close>, that is before the joint
  cap.  \<open>u_dropout\<close> is the draw of the inner \<open>assign_erosion\<close> call, which reads the
  income before the liquid-heavy adjustment.
\<close>

definition run_tax_simulation_before_cap :: "tax_unit \<Rightarrow> real \<Rightarrow> taxed_unit" where
  "run_tax_simulation_before_cap h u_dropout =
    (case assign_erosion_columns 0.40 True u_dropout (Wealth_Rank h) (Business_Asset_Ratio h)
            (Real_Asset_Ratio h) (Financial_Asset_Ratio h) (Income h) (adj_net_wealth_col h) of
       (erosion0, prob, dropout) \<Rightarrow>
         \<lparr>T_Region = Region h, T_Income = bumped_income h, T_Wealth_Rank = Wealth_Rank h,
          T_Final_Weight = Final_Weight h, T_Real_Asset_Ratio = Real_Asset_Ratio h,
          T_Financial_Asset_Ratio = Financial_Asset_Ratio h,
          T_Business_Asset_Ratio = Business_Asset_Ratio h,
          Adj_Net_Wealth = adj_net_wealth_col h, Net_Tax_Base = net_tax_base_col h,
          Is_Taxpayer = is_declarant_col h, Erosion_Factor = bumped_erosion h erosion0,
          Dropout_Prob = prob, Dropout = dropout,
          Taxable_Wealth_Baseline = taxable_wealth_col h,
          Taxable_Wealth_Eroded = taxable_wealth_col h * (1 - bumped_erosion h erosion0),
          Wealth_Tax =
            (if dropout > 0 then 0
             else calculate_ip_tax (taxable_wealth_col h * (1 - bumped_erosion h erosion0))
                    (Region h)),
          PIT_Liability = simulate_pit (bumped_income h), Cap = 0.60 * bumped_income h,
          Migration_Prob = None, Migration_Exit = None, Wealth_Tax_Baseline = None\<rparr>)"

text \<open>The last statements of \<open>run_tax_simulation\<close>: the cap, once.\<close>

definition run_tax_simulation :: "tax_unit \<Rightarrow> real \<Rightarrow> taxed_unit" where
  "run_tax_simulation h u_dropout =
    (let row = run_tax_simulation_before_cap h u_dropout
     in row\<lparr>Cap := 0.60 * T_Income row,
            Wealth_Tax := joint_cap (T_Income row) (PIT_Liability row) (Wealth_Tax row)\<rparr>)"

text \<open>
  \<open>apply_tax_cap_and_adjustments\<close> on the columns it reads (\<open>Income\<close>, \<open>PIT_Liability\<close>,
  \<open>Wealth_Tax\<close>, \<open>Declarant_Weight\<close>); it returns the columns it writes
  (\<open>Cap\<close>, \<open>Wealth_Tax\<close>, \<open>Weighted_Wealth_Tax\<close>).
\<close>

definition apply_tax_cap_and_adjustments ::
  "real \<Rightarrow> real \<Rightarrow> real \<Rightarrow> real \<Rightarrow> real \<times> real \<times> real" where
  "apply_tax_cap_and_adjustments income pit wealth_tax declarant_weight =
    (let capped = joint_cap income pit wealth_tax
     in (0.60 * income, capped, capped * declarant_weight))"

text \<open>
  \<open>apply_migration_module\<close>: \<open>compute_prob\<close> on a row, then the exit draw
  \<open>np.random.rand(len(df)) < Migration_Prob\<close>, then the two zeroing assignments.
\<close>

record migration_levels =
  top_01 :: real
  top_1 :: real
  top_5 :: real

definition compute_prob :: "migration_levels \<Rightarrow> migration_levels \<Rightarrow> real \<Rightarrow> taxed_unit \<Rightarrow> real" where
  "compute_prob thresholds base_probs max_ratio_bump row =
    (let wealth_rank = T_Wealth_Rank row;
         prob0 = (if wealth_rank > top_01 thresholds then top_01 base_probs
                  else if wealth_rank > top_1 thresholds then top_1 base_probs
                  else if wealth_rank > top_5 thresholds then top_5 base_probs
                  else 0.0);
         prob = (case Wealth_Tax_Baseline row of
                   Some baseline \<Rightarrow>
                     prob0 * (1 + min (baseline / (Adj_Net_Wealth row + 0.000001)) max_ratio_bump)
                 | None \<Rightarrow> prob0)
     in min prob 1.0)"

definition apply_migration_module ::
  "migration_levels \<Rightarrow> migration_levels \<Rightarrow> real \<Rightarrow> real \<Rightarrow> taxed_unit \<Rightarrow> taxed_unit" where
  "apply_migration_module thresholds base_probs max_ratio_bump u_exit row =
    (let prob = compute_prob thresholds base_probs max_ratio_bump row;
         exit = (u_exit < prob);
         row1 = row\<lparr>Migration_Prob := Some prob, Migration_Exit := Some exit\<rparr>;
         row2 = (if exit then row1\<lparr>Taxable_Wealth_Eroded := 0.0\<rparr> else row1)
     in if exit then row2\<lparr>Wealth_Tax := 0.0\<rparr> else row2)"

text \<open>
  The part of \<open>main\<close> that produces a row of the result table (\<open>simulated_thesis.csv\<close>)
  from a calibrated unit: the tax simulation, the Madrid override, the second
  \<open>assign_erosion\<close> call, the migration module and the baseline columns.
  \<open>apply_baseline_behavioral_erosion\<close> only adds columns of its own and is left out.
  The three draws are those of the first \<open>assign_erosion\<close>, of the second one and of the
  migration exit.
\<close>

definition main_thresholds :: migration_levels where
  "main_thresholds = \<lparr>top_01 = 0.999, top_1 = 0.99, top_5 = 0.95\<rparr>"

definition main_base_probs :: migration_levels where
  "main_base_probs = \<lparr>top_01 = 0.015, top_1 = 0.007, top_5 = 0.002\<rparr>"

definition main_result_row :: "tax_unit \<Rightarrow> real \<Rightarrow> real \<Rightarrow> real \<Rightarrow> taxed_unit" where
  "main_result_row h u_dropout1 u_dropout2 u_exit =
    (let row1 = run_tax_simulation h u_dropout1;
         row2 = (if py_lower (T_Region row1) = ''madrid'' then row1\<lparr>Wealth_Tax := 0.0\<rparr> else row1);
         row3 = assign_erosion 0.30 True u_dropout2 row2;
         row4 = apply_migration_module main_thresholds main_base_probs 0.015 u_exit row3;
         row5 = row4\<lparr>Taxable_Wealth_Baseline := Net_Tax_Base row4\<rparr>
     in row5\<lparr>Wealth_Tax_Baseline :=
               Some (calculate_ip_tax (Taxable_Wealth_Baseline row5) (T_Region row5))\<rparr>)"

section \<open>Errors and non-finite numbers\<close>

text \<open>
  The exceptions the modelled functions can raise.  All but the first are
  \<open>ValueError\<close>s in Python, raised by the function itself or by the library call named.
\<close>

datatype error =
    ZeroDivisionError
  | RatiosLengthMismatch
  | BinEdgesNotUnique
  | PercentileMismatch
  | EmptyArgmax
  | NegativeRepeats
  | NegativeSize
  | ArraysLengthMismatch

text \<open>
  A double as numpy sees it where a division by zero is possible: a finite number, an
  infinity (the sign is not tracked) or NaN.  Division and multiplication follow IEEE 754
  on these three kinds; no exception is raised.
\<close>

datatype npfloat = Fin real | Inf | NaN

fun np_div :: "npfloat \<Rightarrow> npfloat \<Rightarrow> npfloat" where
  "np_div (Fin a) (Fin b) = (if b \<noteq> 0 then Fin (a / b) else if a = 0 then NaN else Inf)"
| "np_div (Fin a) Inf = Fin 0"
| "np_div Inf (Fin b) = Inf"
| "np_div Inf Inf = NaN"
| "np_div NaN y = NaN"
| "np_div x NaN = NaN"

fun np_mul :: "npfloat \<Rightarrow> npfloat \<Rightarrow> npfloat" where
  "np_mul (Fin a) (Fin b) = Fin (a * b)"
| "np_mul (Fin a) Inf = (if a = 0 then NaN else Inf)"
| "np_mul Inf (Fin b) = (if b = 0 then NaN else Inf)"
| "np_mul Inf Inf = Inf"
| "np_mul NaN y = NaN"
| "np_mul x NaN = NaN"

fun is_Fin :: "npfloat \<Rightarrow> bool" where
  "is_Fin (Fin x) = True"
| "is_Fin Inf = False"
| "is_Fin NaN = False"

fun the_Fin :: "npfloat \<Rightarrow> real" where
  "the_Fin (Fin x) = x"
| "the_Fin Inf = 0"
| "the_Fin NaN = 0"

text \<open>
  A seeded generator is the stream of its draws: \<open>rng i\<close> is draw number \<open>i\<close>, and a
  consumer starts at the position where the previous one stopped.
\<close>

type_synonym rng = "nat \<Rightarrow> real"

section \<open>Population synthesizer\<close>

text \<open>
  \<open>round\<close> of Python and of numpy rounds a half to the even neighbour.
\<close>

definition py_round :: "real \<Rightarrow> int" where
  "py_round x =
    (let f = \<lfloor>x\<rfloor>; d = x - of_int f
     in if d < 1/2 then f else if d > 1/2 then f + 1 else if even f then f else f + 1)"

text \<open>
  \<open>idxmax\<close>: the position of the maximum, the first one among equals.  The scan keeps
  the best position so far and moves only on a strictly larger value.
\<close>

fun idxmax_loop :: "int list \<Rightarrow> nat \<Rightarrow> nat \<Rightarrow> int \<Rightarrow> nat" where
  "idxmax_loop [] pos best_pos best = best_pos"
| "idxmax_loop (x # xs) pos best_pos best =
    (if x > best then idxmax_loop xs (pos + 1) pos x
     else idxmax_loop xs (pos + 1) best_pos best)"

definition idxmax :: "int list \<Rightarrow> nat" where
  "idxmax xs = (case xs of [] \<Rightarrow> 0 | x # rest \<Rightarrow> idxmax_loop rest 1 0 x)"

text \<open>
  Step 1 of \<open>generate_scaled_households\<close>: \<open>total_households\<close> and the column
  \<open>Num_Households\<close> after the adjustment for the rounding mismatch.  The frame is the
  list of its (Region, Population) rows.  \<open>idxmax\<close> of an empty column raises.
\<close>

definition total_households :: "int \<Rightarrow> real \<Rightarrow> int" where
  "total_households simulated_population avg_household_size =
    py_round (of_int simulated_population / avg_household_size)"

definition num_households_rounded :: "(string \<times> real) list \<Rightarrow> int \<Rightarrow> int list" where
  "num_households_rounded df n_total = map (\<lambda>(region, population). py_round (population * of_int n_total)) df"

definition num_households :: "(string \<times> real) list \<Rightarrow> int \<Rightarrow> error + int list" where
  "num_households df n_total =
    (let num = num_households_rounded df n_total;
         diff = n_total - sum_list num
     in if diff \<noteq> 0
        then (if num = [] then Inl EmptyArgmax
              else Inr (num[idxmax num := num ! idxmax num + diff]))
        else Inr num)"

text \<open>
  \<open>rng.choice([1, 2], size, p=[0.3, 0.7])\<close> turns each uniform draw into a size: 1
  below 0.3, else 2.
\<close>

definition choice_size :: "real \<Rightarrow> nat" where
  "choice_size u = (if u < 0.3 then 1 else 2)"

text \<open>
  The whole function.  \<open>simulated_population / avg_household_size\<close> raises on a zero
  divisor; \<open>np.repeat\<close> raises on a negative count; \<open>rng.choice\<close> raises on a negative
  size; the \<open>DataFrame\<close> constructor raises on columns of different lengths.  The result
  is the list of (Region, Household_Size) rows.
\<close>

definition generate_scaled_households ::
  "(string \<times> real) list \<Rightarrow> int \<Rightarrow> real \<Rightarrow> rng \<Rightarrow> error + (string \<times> nat) list" where
  "generate_scaled_households df simulated_population avg_household_size rng =
    (if avg_household_size = 0 then Inl ZeroDivisionError
     else
       let n_total = total_households simulated_population avg_household_size
       in case num_households df n_total of
            Inl e \<Rightarrow> Inl e
          | Inr num \<Rightarrow>
              if list_ex (\<lambda>c. c < 0) num then Inl NegativeRepeats
              else if n_total < 0 then Inl NegativeSize
              else
                let regions = concat (map (\<lambda>((region, population), c). replicate (nat c) region)
                                          (zip df num));
                    household_sizes = map (\<lambda>i. choice_size (rng i)) [0..<nat n_total]
                in if length regions \<noteq> length household_sizes then Inl ArraysLengthMismatch
                   else Inr (zip regions household_sizes))"

section \<open>Unit expander\<close>

text \<open>
  A household row with the columns the expander and the tail injection read.  The frame
  is the list of its rows and the index is the position, so index labels are unique, as
  they are for the frame \<open>generate_and_adjust_households\<close> hands over.
\<close>

record household =
  Original_ID :: nat
  Weight :: real
  H_Total_Assets :: real
  Debts :: real
  Real_Assets :: real
  Financial_Assets :: real
  Business_Assets :: real
  H_Income :: real
  Net_Wealth :: real
  H_Debt_Ratio :: real

record individual = household +
  Tax_Unit_ID :: nat
  Split_From :: nat

text \<open>
  \<open>Split\<close>: the first \<open>len(df)\<close> draws of the generator, one per row.
\<close>

definition split_column :: "real \<Rightarrow> real \<Rightarrow> rng \<Rightarrow> household list \<Rightarrow> bool list" where
  "split_column base_threshold split_prob rng df =
    map (\<lambda>i. Net_Wealth (df ! i) > base_threshold \<and> rng i < split_prob) [0..<length df]"

definition n_units_column :: "bool list \<Rightarrow> nat list" where
  "n_units_column split = map (\<lambda>b. if b then 2 else 1) split"

text \<open>\<open>df.loc[df.index.repeat(df["n_units"])]\<close>\<close>

definition repeat_rows :: "household list \<Rightarrow> nat list \<Rightarrow> household list" where
  "repeat_rows df n_units = concat (map (\<lambda>(h, n). replicate n h) (zip df n_units))"

text \<open>\<open>groupby("Original_ID").cumcount()\<close>: how many earlier rows carry the same id.\<close>

definition cumcount :: "nat list \<Rightarrow> nat list" where
  "cumcount ids = map (\<lambda>j. length (filter (\<lambda>x. x = ids ! j) (take j ids))) [0..<length ids]"

text \<open>
  The loop that builds \<open>ratios\<close>; \<open>pos\<close> is the position of the generator, one draw
  being consumed for each household of two units.
\<close>

fun ratios_loop :: "nat list \<Rightarrow> rng \<Rightarrow> nat \<Rightarrow> real list" where
  "ratios_loop [] rng pos = []"
| "ratios_loop (units # rest) rng pos =
    (if units = 2
     then (if rng pos < 0.5 then [0.8, 0.2] else [0.9, 0.1]) @ ratios_loop rest rng (pos + 1)
     else [1.0] @ ratios_loop rest rng pos)"

text \<open>
  One output row: the seven monetary columns and the weight times \<open>Ratio\<close>,
  \<open>Tax_Unit_ID = Unit_Index + 1\<close>, \<open>Split_From = Original_ID\<close>.
\<close>

definition scaled_unit :: "household \<Rightarrow> real \<Rightarrow> nat \<Rightarrow> individual" where
  "scaled_unit h ratio unit_index =
    \<lparr>Original_ID = Original_ID h,
     Weight = Weight h * ratio,
     H_Total_Assets = H_Total_Assets h * ratio,
     Debts = Debts h * ratio,
     Real_Assets = Real_Assets h * ratio,
     Financial_Assets = Financial_Assets h * ratio,
     Business_Assets = Business_Assets h * ratio,
     H_Income = H_Income h * ratio,
     Net_Wealth = Net_Wealth h * ratio,
     H_Debt_Ratio = H_Debt_Ratio h,
     Tax_Unit_ID = unit_index + 1,
     Split_From = Original_ID h\<rparr>"

definition expand_households_to_individuals ::
  "household list \<Rightarrow> real \<Rightarrow> real \<Rightarrow> rng \<Rightarrow> error + individual list" where
  "expand_households_to_individuals df base_threshold split_prob rng =
    (let n_units = n_units_column (split_column base_threshold split_prob rng df);
         repeated_df = repeat_rows df n_units;
         unit_index = cumcount (map Original_ID repeated_df);
         ratios = ratios_loop n_units rng (length df)
     in if length ratios \<noteq> length repeated_df then Inl RatiosLengthMismatch
        else Inr (map (\<lambda>(h, ratio, idx). scaled_unit h ratio idx)
                      (zip repeated_df (zip ratios unit_index))))"

text \<open>The units derived from the household with a given id, and a column summed over them.\<close>

definition units_of :: "nat \<Rightarrow> individual list \<Rightarrow> individual list" where
  "units_of original_id units = filter (\<lambda>u. Split_From u = original_id) units"

definition column_sum :: "('a \<Rightarrow> real) \<Rightarrow> 'a list \<Rightarrow> real" where
  "column_sum col rows = sum_list (map col rows)"

text \<open>
  The sum of a column times the ratio over the (row, ratio) pairs of one household id.
\<close>

definition ratio_sum :: "nat \<Rightarrow> (household \<Rightarrow> real) \<Rightarrow> (household \<times> real) list \<Rightarrow> real" where
  "ratio_sum original_id col pairs =
    sum_list (map (\<lambda>(h, r). col h * r) (filter (\<lambda>(h, r). Original_ID h = original_id) pairs))"

section \<open>Wealth calibrator: percentile-share reweighting\<close>

text \<open>
  \<open>rank(method="first", pct=True)\<close>: the rank of a value is one more than the number of
  smaller values plus the number of equal values before it; \<open>pct\<close> divides by the
  number of rows.
\<close>

definition rank_first :: "real list \<Rightarrow> nat list" where
  "rank_first vs =
    map (\<lambda>i. 1 + length (filter (\<lambda>v. v < vs ! i) vs)
                 + length (filter (\<lambda>v. v = vs ! i) (take i vs)))
        [0..<length vs]"

definition rank_pct :: "real list \<Rightarrow> real list" where
  "rank_pct vs = map (\<lambda>r. real r / real (length vs)) (rank_first vs)"

text \<open>
  \<open>Series.quantile(q)\<close> with linear interpolation, on a non-empty column: position
  \<open>h = (n - 1) q\<close> in the sorted values, interpolated between the neighbours.
\<close>

definition quantile_linear :: "real list \<Rightarrow> real \<Rightarrow> real" where
  "quantile_linear xs q =
    (let sorted_xs = sort xs;
         h = (real (length xs) - 1) * q;
         lo = nat \<lfloor>h\<rfloor>;
         hi = min (lo + 1) (length xs - 1)
     in sorted_xs ! lo + (h - real lo) * (sorted_xs ! hi - sorted_xs ! lo))"

text \<open>
  \<open>pd.qcut(x, q, labels=False)\<close>: the \<open>q + 1\<close> bin edges are the quantiles at
  \<open>0, 1/q, ..., 1\<close>; equal edges raise; a value gets the number of edges below it, less
  one, and the lowest value gets 0 (right-closed bins, the lowest included).  Of an empty
  column every quantile is NaN, so the edges are not unique.
\<close>

definition qcut :: "real list \<Rightarrow> nat \<Rightarrow> error + nat list" where
  "qcut x q =
    (let bins = map (\<lambda>j. quantile_linear x (real j / real q)) [0..<q + 1]
     in if x = [] \<or> \<not> distinct bins then Inl BinEdgesNotUnique
        else Inr (map (\<lambda>v. if v = hd bins then 0 else length (filter (\<lambda>b. b < v) bins) - 1) x))"

text \<open>
  \<open>groupby(key)[col].sum()\<close>: one entry for each key that occurs, in ascending order of
  the keys.
\<close>

definition groupby_sum :: "nat list \<Rightarrow> real list \<Rightarrow> (nat \<times> real) list" where
  "groupby_sum keys vals =
    map (\<lambda>k. (k, sum_list (map snd (filter (\<lambda>(k', v). k' = k) (zip keys vals)))))
        (remdups (sort keys))"

definition target_shares_raw :: "real list" where
  "target_shares_raw = [0.00, 0.01, 0.02, 0.04, 0.07, 0.10, 0.13, 0.18, 0.25, 0.20]"

text \<open>\<open>target_shares /= target_shares.sum()\<close>\<close>

definition target_shares :: "real list" where
  "target_shares = map (\<lambda>t. t / sum_list target_shares_raw) target_shares_raw"

record reweighted_row =
  Value_Col :: real
  Weight_Col :: real
  RW_Wealth_Rank :: real
  Wealth_Percentile :: nat
  Weighted_Wealth :: real
  Scaling_Factor :: npfloat
  Adjusted_Weight :: npfloat

text \<open>
  \<open>actual_shares\<close>: the group sums of \<open>Weighted_Wealth\<close> divided by their sum, and
  \<open>scaling_factors = target_shares / actual_shares.values\<close>, position by position.  Both
  divisions are numpy divisions: they give NaN or an infinity on a zero divisor and do
  not raise.
\<close>

definition actual_shares :: "nat list \<Rightarrow> real list \<Rightarrow> npfloat list" where
  "actual_shares wealth_percentile weighted_wealth =
    (let groups = groupby_sum wealth_percentile weighted_wealth;
         shares_sum = sum_list (map snd groups)
     in map (\<lambda>(k, s). np_div (Fin s) (Fin shares_sum)) groups)"

definition scaling_factors :: "npfloat list \<Rightarrow> npfloat list" where
  "scaling_factors actual = map (\<lambda>(t, a). np_div (Fin t) a) (zip target_shares actual)"

text \<open>
  One row of the result.  \<open>.map(dict(enumerate(scaling_factors)))\<close> gives NaN for a
  label that is not a position of \<open>scaling_factors\<close>.
\<close>

definition reweighted_row_of :: "npfloat list \<Rightarrow> (real \<times> real) \<times> real \<times> nat \<Rightarrow> reweighted_row" where
  "reweighted_row_of factors = (\<lambda>((v, w), rank, label).
     let factor = (if label < length factors then factors ! label else NaN)
     in \<lparr>Value_Col = v, Weight_Col = w, RW_Wealth_Rank = rank,
         Wealth_Percentile = label, Weighted_Wealth = v * w,
         Scaling_Factor = factor, Adjusted_Weight = np_mul (Fin w) factor\<rparr>)"

text \<open>
  The function on a frame that has the value and the weight column: a row is the pair
  (value, weight).
\<close>

definition reweight_to_match_percentile_shares ::
  "(real \<times> real) list \<Rightarrow> nat \<Rightarrow> error + reweighted_row list" where
  "reweight_to_match_percentile_shares dataframe percentiles =
    (let df_copy = filter (\<lambda>(v, w). v \<ge> 0) dataframe;
         wealth_rank = rank_pct (map fst df_copy)
     in case qcut wealth_rank percentiles of
          Inl e \<Rightarrow> Inl e
        | Inr wealth_percentile \<Rightarrow>
            let actual = actual_shares wealth_percentile (map (\<lambda>(v, w). v * w) df_copy)
            in if length actual \<noteq> length target_shares then Inl PercentileMismatch
               else Inr (map (reweighted_row_of (scaling_factors actual))
                             (zip df_copy (zip wealth_rank wealth_percentile))))"

text \<open>The weighted value of bin \<open>k\<close> in the returned frame, before the rescaling.\<close>

definition bin_weighted :: "reweighted_row list \<Rightarrow> nat \<Rightarrow> real" where
  "bin_weighted rows k =
    sum_list (map Weighted_Wealth (filter (\<lambda>r. Wealth_Percentile r = k) rows))"

text \<open>
  The check the specification describes, on the returned frame: the share of bin \<open>k\<close> in
  the total of value times adjusted weight.  It is a number only when every adjusted
  weight is finite and the total is not zero; \<open>None\<close> stands for every other outcome
  (with an infinite or NaN weight in the frame the total is infinite or NaN, and no bin
  with a positive target can have its target as share).
\<close>

definition total_weighted_value :: "(real \<times> real) list \<Rightarrow> real" where
  "total_weighted_value dataframe = sum_list (map (\<lambda>(v, w). v * w) dataframe)"

definition adjusted_value :: "reweighted_row \<Rightarrow> real" where
  "adjusted_value r = Value_Col r * the_Fin (Adjusted_Weight r)"

definition adjusted_share :: "reweighted_row list \<Rightarrow> nat \<Rightarrow> real option" where
  "adjusted_share rows k =
    (let bin_value = sum_list (map adjusted_value (filter (\<lambda>r. Wealth_Percentile r = k) rows));
         all_value = sum_list (map adjusted_value rows)
     in if list_all (\<lambda>r. is_Fin (Adjusted_Weight r)) rows \<and> all_value \<noteq> 0
        then Some (bin_value / all_value) else None)"

definition shares_match_targets :: "(real \<times> real) list \<Rightarrow> bool" where
  "shares_match_targets dataframe =
    (case reweight_to_match_percentile_shares dataframe 10 of
       Inl e \<Rightarrow> False
     | Inr rows \<Rightarrow>
         list_all (\<lambda>k. case adjusted_share rows k of
                          Some share \<Rightarrow> \<bar>share - target_shares ! k\<bar> \<le> 1 / 10 ^ 9
                        | None \<Rightarrow> False) [0..<10])"

section \<open>Wealth calibrator: Pareto tail injection\<close>

text \<open>
  \<open>int(n * 0.01)\<close> and \<open>int(n * 0.10)\<close>: the product truncated.
\<close>

definition top1_n :: "nat \<Rightarrow> nat" where
  "top1_n n = nat \<lfloor>real n * 0.01\<rfloor>"

definition top10_n :: "nat \<Rightarrow> nat" where
  "top10_n n = nat \<lfloor>real n * 0.10\<rfloor>"

text \<open>
  \<open>sort_values("Total_Assets", ascending=False)\<close>.  The order of rows with equal assets
  is the library's choice; the model keeps their original order.
\<close>

definition sort_by_assets_desc :: "household list \<Rightarrow> household list" where
  "sort_by_assets_desc df = sort_key (\<lambda>r. - H_Total_Assets r) df"

text \<open>
  \<open>scale = target / (sample * weights).sum()\<close>, a numpy division.
\<close>

definition window_scale :: "real \<Rightarrow> real list \<Rightarrow> real list \<Rightarrow> npfloat" where
  "window_scale target sample weights =
    np_div (Fin target) (Fin (sum_list (map (\<lambda>(x, w). x * w) (zip sample weights))))"

text \<open>
  A row of a window: the redrawn and rescaled assets, then debts and net wealth from
  them.  The debt ratio and the weight are not written.
\<close>

definition inject_row :: "household \<Rightarrow> real \<Rightarrow> household" where
  "inject_row r assets =
    r\<lparr>H_Total_Assets := assets,
      Debts := assets * H_Debt_Ratio r,
      Net_Wealth := assets - assets * H_Debt_Ratio r\<rparr>"

text \<open>\<open>ta_arr[indices] = sample * scale\<close> and the recomputation, on one window.\<close>

definition fill_window :: "household list \<Rightarrow> real list \<Rightarrow> real \<Rightarrow> household list" where
  "fill_window rows sample scale = map (\<lambda>(r, x). inject_row r (x * scale)) (zip rows sample)"

text \<open>
  The function.  \<open>pareto\<close> is the stream of the generator's Pareto draws: the first
  \<open>top1_n\<close> go to the top 1%, the following ones to the next 9%.  A window that is not
  empty and whose scale is not finite is filled with infinities or NaN by the code; the
  model answers \<open>None\<close> for such a frame and \<open>Some\<close> of the frame when every written
  number is finite.  The scale of an empty window is computed and not used.
\<close>

definition inject_calibrated_pareto_tail ::
  "household list \<Rightarrow> real \<Rightarrow> real \<Rightarrow> rng \<Rightarrow> household list option" where
  "inject_calibrated_pareto_tail df0 top1_share_target top10_share_target pareto =
    (let df = sort_by_assets_desc df0;
         n = length df;
         n1 = top1_n n;
         n10 = top10_n n;
         total_net_wealth = sum_list (map Net_Wealth df);
         top1_rows = take n1 df;
         top10_rows = drop n1 (take n10 df);
         top1_sample = map pareto [0..<n1];
         scale1 = window_scale (top1_share_target * total_net_wealth) top1_sample
                    (map Weight top1_rows);
         top10_sample = map pareto [n1..<n1 + length top10_rows];
         target_top10 = top10_share_target * total_net_wealth
                          - top1_share_target * total_net_wealth;
         scale10 = window_scale target_top10 top10_sample (map Weight top10_rows)
     in if (top1_rows \<noteq> [] \<and> \<not> is_Fin scale1) \<or> (top10_rows \<noteq> [] \<and> \<not> is_Fin scale10)
        then None
        else Some (fill_window top1_rows top1_sample (the_Fin scale1)
                   @ fill_window top10_rows top10_sample (the_Fin scale10)
                   @ drop n10 df))"

text \<open>A window's aggregate of a column times the weight.\<close>

definition weighted_sum :: "(household \<Rightarrow> real) \<Rightarrow> household list \<Rightarrow> real" where
  "weighted_sum col rows = sum_list (map (\<lambda>r. col r * Weight r) rows)"

section \<open>Calibration: taxpayer-count targets\<close>

text \<open>
  \<open>scale_final_weights_by_taxpayer_counts\<close>.  The target map is the list of its items in
  iteration order.  The loop reads \<open>Final_Weight\<close> and writes
  \<open>Scaled_Taxpayer_Weight\<close>, the list \<open>scaled\<close>, which replaces \<open>Final_Weight\<close> at the
  end.  Both skips are \<open>continue\<close>s.
\<close>

definition taxpayer_mask :: "string \<Rightarrow> taxed_unit list \<Rightarrow> bool list" where
  "taxpayer_mask region df = map (\<lambda>r. T_Region r = region \<and> Is_Taxpayer r) df"

fun scale_loop :: "(string \<times> real) list \<Rightarrow> taxed_unit list \<Rightarrow> real list \<Rightarrow> real list" where
  "scale_loop [] df scaled = scaled"
| "scale_loop ((region, target_count) # rest) df scaled =
    (let mask = taxpayer_mask region df;
         regional_declarants = map fst (filter snd (zip df mask))
     in if regional_declarants = [] then scale_loop rest df scaled
        else
          let total_weight = sum_list (map T_Final_Weight regional_declarants)
          in if total_weight = 0 then scale_loop rest df scaled
             else
               let scaling_factor = target_count / total_weight
               in scale_loop rest df
                    (map (\<lambda>(s, m). if m then s * scaling_factor else s) (zip scaled mask)))"

text \<open>\<open>df["Region"] = df["Region"].str.strip().str.lower()\<close>\<close>

definition normalize_region :: "taxed_unit \<Rightarrow> taxed_unit" where
  "normalize_region r = r\<lparr>T_Region := py_lower (py_strip (T_Region r))\<rparr>"

definition scale_final_weights_by_taxpayer_counts ::
  "taxed_unit list \<Rightarrow> (string \<times> real) list \<Rightarrow> taxed_unit list" where
  "scale_final_weights_by_taxpayer_counts df0 region_targets_quota =
    (let df = map normalize_region df0;
         scaled = scale_loop region_targets_quota df (map T_Final_Weight df)
     in map (\<lambda>(r, s). r\<lparr>T_Final_Weight := s\<rparr>) (zip df scaled))"

text \<open>
  A region has no simulated taxpayers in a frame (with normalised region names): its
  taxpayer subgroup is empty or has total weight zero.
\<close>

definition no_simulated_taxpayers :: "string \<Rightarrow> taxed_unit list \<Rightarrow> bool" where
  "no_simulated_taxpayers region df =
    (let regional = filter (\<lambda>r. T_Region r = region \<and> Is_Taxpayer r) df
     in regional = [] \<or> sum_list (map T_Final_Weight regional) = 0)"

section \<open>Example inputs\<close>

text \<open>
  A wealthy unit of Catalonia: 20 million of assets, no debt, 30% real and 70% financial
  assets, an income of 100,000 and a rank in the top 1%.
\<close>

definition example_unit :: tax_unit where
  "example_unit = \<lparr>Region = ''catalonia'', Total_Assets = 20000000,
     Total_Assets_Pareto = Some 20000000, Debt_Ratio = 0, Real_Asset_Ratio = 0.3,
     Financial_Asset_Ratio = 0.7, Business_Asset_Ratio = 0, Income = 100000,
     Wealth_Rank = 0.995, Final_Weight = 1\<rparr>"

text \<open>
  Two households for the expander: the first above the split threshold of one million,
  the second below it.
\<close>

definition example_household_1 :: household where
  "example_household_1 = \<lparr>Original_ID = 0, Weight = 1, H_Total_Assets = 2000000,
     Debts = 500000, Real_Assets = 1200000, Financial_Assets = 800000, Business_Assets = 0,
     H_Income = 90000, Net_Wealth = 1500000, H_Debt_Ratio = 0.25\<rparr>"

definition example_household_2 :: household where
  "example_household_2 = \<lparr>Original_ID = 1, Weight = 1, H_Total_Assets = 250000,
     Debts = 50000, Real_Assets = 200000, Financial_Assets = 50000, Business_Assets = 0,
     H_Income = 30000, Net_Wealth = 200000, H_Debt_Ratio = 0.2\<rparr>"

text \<open>
  A frame for the weight rescaling: a unit of Madrid that is no taxpayer and a taxpayer of
  Galicia; every column the rescaling does not read is 0.
\<close>

definition scaling_row :: "string \<Rightarrow> bool \<Rightarrow> real \<Rightarrow> taxed_unit" where
  "scaling_row region taxpayer w =
    \<lparr>T_Region = region, T_Income = 0, T_Wealth_Rank = 0, T_Final_Weight = w,
     T_Real_Asset_Ratio = 0, T_Financial_Asset_Ratio = 0, T_Business_Asset_Ratio = 0,
     Adj_Net_Wealth = 0, Net_Tax_Base = 0, Is_Taxpayer = taxpayer, Erosion_Factor = 0,
     Dropout_Prob = 0, Dropout = 0, Taxable_Wealth_Baseline = 0, Taxable_Wealth_Eroded = 0,
     Wealth_Tax = 0, PIT_Liability = 0, Cap = 0, Migration_Prob = None,
     Migration_Exit = None, Wealth_Tax_Baseline = None\<rparr>"

definition scaling_frame :: "taxed_unit list" where
  "scaling_frame = [scaling_row '' Madrid'' False 2, scaling_row ''galicia'' True 3]"

definition scaling_targets :: "(string \<times> real) list" where
  "scaling_targets = [(''madrid'', 100), (''galicia'', 6)]"

text \<open>
  Ten rows for the reweighting, one per decile: with values 0 to 9, with values 1 to 10,
  and with value 0 throughout; and a frame of two rows.  All weights are 1.
\<close>

definition ten_rows :: "(real \<times> real) list" where
  "ten_rows = [(0, 1), (1, 1), (2, 1), (3, 1), (4, 1), (5, 1), (6, 1), (7, 1), (8, 1), (9, 1)]"

definition ten_positive_rows :: "(real \<times> real) list" where
  "ten_positive_rows =
    [(1, 1), (2, 1), (3, 1), (4, 1), (5, 1), (6, 1), (7, 1), (8, 1), (9, 1), (10, 1)]"

definition ten_zero_rows :: "(real \<times> real) list" where
  "ten_zero_rows =
    [(0, 1), (0, 1), (0, 1), (0, 1), (0, 1), (0, 1), (0, 1), (0, 1), (0, 1), (0, 1)]"

definition two_rows :: "(real \<times> real) list" where
  "two_rows = [(1, 1), (2, 1)]"

text \<open>
  A hundred units for the tail injection, in descending order of assets (200 down to
  101), each with weight 1 and half of its assets as debt.
\<close>

definition indebted_unit :: "nat \<Rightarrow> household" where
  "indebted_unit i =
    \<lparr>Original_ID = i, Weight = 1, H_Total_Assets = 200 - real i,
     Debts = (200 - real i) / 2, Real_Assets = 0, Financial_Assets = 0, Business_Assets = 0,
     H_Income = 0, Net_Wealth = (200 - real i) / 2, H_Debt_Ratio = 1 / 2\<rparr>"

definition hundred_units :: "household list" where
  "hundred_units = map indebted_unit [0..<100]"

text \<open>
  A generator whose every draw is 1, and one whose every draw is one half; and the two
  windows' aggregates of weight times net wealth in a frame returned by the injection.
\<close>

definition unit_draws :: rng where
  "unit_draws = (\<lambda>i. 1)"

definition half_draws :: rng where
  "half_draws = (\<lambda>i. 1 / 2)"

definition window_net_wealth :: "household list \<Rightarrow> real \<times> real" where
  "window_net_wealth out =
    (weighted_sum Net_Wealth (take (top1_n (length out)) out),
     weighted_sum Net_Wealth (drop (top1_n (length out)) (take (top10_n (length out)) out)))"

text \<open>Eight regions of equal population share, one eighth each.\<close>

definition eight_regions :: "(string \<times> real) list" where
  "eight_regions = map (\<lambda>r. (r, 0.125)) [''r1'', ''r2'', ''r3'', ''r4'', ''r5'', ''r6'', ''r7'', ''r8'']"

section \<open>Properties of the bracket tax function\<close>

lemma bracket_sum_below:
  "ascending_gap_free lo bs \<Longrightarrow> base \<le> lo \<Longrightarrow> bracket_sum base bs = 0"
proof (induction lo bs rule: ascending_gap_free.induct)
  case (1 lo)
  then show ?case by simp
next
  case (2 lo lower rate bs)
  then show ?case by (simp add: max_def)
next
  case (3 lo lower upper rate bs)
  then show ?case by (simp add: max_def min_def)
qed

lemma ip_loop_closed:
  "ascending_gap_free lo bs \<Longrightarrow> ip_loop base bs tax = tax + bracket_sum base bs"
proof (induction lo bs arbitrary: tax rule: ascending_gap_free.induct)
  case (1 lo)
  then show ?case by simp
next
  case (2 lo lower rate bs)
  then show ?case by (simp add: max_def)
next
  case (3 lo lower upper rate bs)
  show ?case
  proof (cases "base > lower")
    case True
    with 3 show ?thesis by (simp add: max_def algebra_simps)
  next
    case False
    with 3 have "bracket_sum base bs = 0"
      by (intro bracket_sum_below[of upper]) auto
    with False 3 show ?thesis by (simp add: max_def min_def)
  qed
qed

lemma bracket_sum_mono:
  "rates_nonneg bs \<Longrightarrow> b1 \<le> b2 \<Longrightarrow> bracket_sum b1 bs \<le> bracket_sum b2 bs"
proof (induction bs)
  case Nil
  then show ?case by simp
next
  case (Cons a bs)
  obtain lower upper rate where a: "a = (lower, upper, rate)" by (cases a)
  have "min_upper (max b1 lower) upper \<le> min_upper (max b2 lower) upper"
    using Cons.prems(2) by (cases upper) (auto simp: max_def min_def)
  then have "(min_upper (max b1 lower) upper - lower) * rate
      \<le> (min_upper (max b2 lower) upper - lower) * rate"
    using Cons.prems(1) a by (simp add: rates_nonneg_def mult_right_mono)
  moreover have "bracket_sum b1 bs \<le> bracket_sum b2 bs"
    using Cons by (simp add: rates_nonneg_def)
  ultimately show ?case using a by simp
qed

lemma bracket_sum_continuous: "continuous_on UNIV (\<lambda>b. bracket_sum b bs)"
proof (induction bs)
  case Nil
  then show ?case by simp
next
  case (Cons a bs)
  obtain lower upper rate where a: "a = (lower, upper, rate)" by (cases a)
  have "continuous_on UNIV (\<lambda>b. min_upper (max b lower) upper)"
    by (cases upper) (auto intro!: continuous_intros)
  then show ?case using Cons a by (auto intro!: continuous_intros)
qed

lemma lower_bound_of_member:
  "ascending_gap_free lo bs \<Longrightarrow> (lower, upper, rate) \<in> set bs \<Longrightarrow> lo \<le> lower"
  by (induction lo bs rule: ascending_gap_free.induct) auto

lemma bracket_sum_slope:
  "ascending_gap_free lo bs \<Longrightarrow> (lower, upper, rate) \<in> set bs \<Longrightarrow>
   in_bracket b1 (lower, upper, rate) \<Longrightarrow> in_bracket b2 (lower, upper, rate) \<Longrightarrow>
   bracket_sum b2 bs - bracket_sum b1 bs = rate * (b2 - b1)"
proof (induction lo bs rule: ascending_gap_free.induct)
  case (1 lo)
  then show ?case by simp
next
  case (2 lo l r bs)
  then show ?case by (auto simp: max_def algebra_simps)
next
  case (3 lo l u r bs)
  show ?case
  proof (cases "(lower, upper, rate) = (l, Some u, r)")
    case True
    with 3 have "bracket_sum b1 bs = 0" "bracket_sum b2 bs = 0"
      by (auto intro: bracket_sum_below[of u])
    with True 3 show ?thesis by (auto simp: max_def min_def algebra_simps)
  next
    case False
    with 3 have mem: "(lower, upper, rate) \<in> set bs" by auto
    from 3 mem have "u \<le> lower" by (auto intro: lower_bound_of_member)
    moreover have "lower \<le> b1" "lower \<le> b2" using 3 by (cases upper; simp)+
    ultimately have "min_upper (max b1 l) (Some u) = u" "min_upper (max b2 l) (Some u) = u"
      using 3 by (auto simp: max_def min_def)
    moreover have "bracket_sum b2 bs - bracket_sum b1 bs = rate * (b2 - b1)"
      using 3 mem by auto
    ultimately show ?thesis by simp
  qed
qed

lemma brackets_for_valid:
  "ascending_gap_free 0 (brackets_for region) \<and> rates_nonneg (brackets_for region)"
proof -
  have "ascending_gap_free 0 catalonia_scale" "rates_nonneg catalonia_scale"
    "ascending_gap_free 0 madrid_scale" "rates_nonneg madrid_scale"
    "ascending_gap_free 0 extremadura_scale" "rates_nonneg extremadura_scale"
    "ascending_gap_free 0 galicia_scale" "rates_nonneg galicia_scale"
    "ascending_gap_free 0 asturias_scale" "rates_nonneg asturias_scale"
    "ascending_gap_free 0 valencia_scale" "rates_nonneg valencia_scale"
    "ascending_gap_free 0 default_scale" "rates_nonneg default_scale"
    by (simp_all add: catalonia_scale_def madrid_scale_def extremadura_scale_def
        galicia_scale_def asturias_scale_def valencia_scale_def default_scale_def
        rates_nonneg_def)
  moreover have "brackets_for region \<in> {catalonia_scale, madrid_scale, extremadura_scale,
      galicia_scale, asturias_scale, valencia_scale, default_scale}"
    by (simp add: brackets_for_def regional_scales_def)
  ultimately show ?thesis by auto
qed

lemma calculate_ip_tax_closed:
  "calculate_ip_tax base region = bracket_sum base (brackets_for region)"
  using ip_loop_closed[of 0 "brackets_for region" base 0] brackets_for_valid[of region]
  by (simp add: calculate_ip_tax_def)

lemma every_table_valid:
  "\<forall>table \<in> ran regional_scales. ascending_gap_free 0 table \<and> rates_nonneg table"
proof
  fix table
  assume "table \<in> ran regional_scales"
  then obtain region where "regional_scales region = Some table" by (auto simp: ran_def)
  then have "brackets_for region = table" by (simp add: brackets_for_def)
  then show "ascending_gap_free 0 table \<and> rates_nonneg table"
    using brackets_for_valid[of region] by simp
qed

text \<open>
  Claim C2.  For every region string the bracket tax is defined on every (finite) base,
  is 0 at base 0 and at every base that is not positive, does not decrease when the base
  grows, is continuous, and between two bases of one bracket grows by the bracket's rate
  times the difference; the table the region selects, and every table of the dict,
  starts at 0, is strictly ascending and gap-free, and ends with an unbounded bracket.
\<close>

theorem calculate_ip_tax_piecewise_linear:
  "calculate_ip_tax 0 region = 0
   \<and> (base \<le> 0 \<longrightarrow> calculate_ip_tax base region = 0)
   \<and> (b1 \<le> b2 \<longrightarrow> calculate_ip_tax b1 region \<le> calculate_ip_tax b2 region)
   \<and> continuous_on UNIV (\<lambda>b. calculate_ip_tax b region)
   \<and> (\<forall>br \<in> set (brackets_for region). in_bracket b1 br \<and> in_bracket b2 br \<longrightarrow>
        calculate_ip_tax b2 region - calculate_ip_tax b1 region = snd (snd br) * (b2 - b1))
   \<and> ascending_gap_free 0 (brackets_for region)
   \<and> (\<forall>table \<in> ran regional_scales. ascending_gap_free 0 table)"
proof -
  have valid: "ascending_gap_free 0 (brackets_for region)" "rates_nonneg (brackets_for region)"
    using brackets_for_valid by auto
  have zero: "\<And>b. b \<le> 0 \<Longrightarrow> calculate_ip_tax b region = 0"
    using bracket_sum_below[OF valid(1)] by (simp add: calculate_ip_tax_closed)
  have mono: "b1 \<le> b2 \<longrightarrow> calculate_ip_tax b1 region \<le> calculate_ip_tax b2 region"
    using bracket_sum_mono[OF valid(2)] by (simp add: calculate_ip_tax_closed)
  have cont: "continuous_on UNIV (\<lambda>b. calculate_ip_tax b region)"
    using bracket_sum_continuous by (simp add: calculate_ip_tax_closed)
  have slope: "\<forall>br \<in> set (brackets_for region). in_bracket b1 br \<and> in_bracket b2 br \<longrightarrow>
        calculate_ip_tax b2 region - calculate_ip_tax b1 region = snd (snd br) * (b2 - b1)"
  proof (intro ballI impI)
    fix br
    assume br: "br \<in> set (brackets_for region)"
      and inb: "in_bracket b1 br \<and> in_bracket b2 br"
    obtain lower upper rate where e: "br = (lower, upper, rate)" by (cases br)
    show "calculate_ip_tax b2 region - calculate_ip_tax b1 region = snd (snd br) * (b2 - b1)"
      using bracket_sum_slope[OF valid(1), of lower upper rate b1 b2] br inb e
      by (simp add: calculate_ip_tax_closed)
  qed
  have tables: "\<forall>table \<in> ran regional_scales. ascending_gap_free 0 table"
    using every_table_valid by blast
  show ?thesis using zero[of 0] zero[of base] mono cont slope valid(1) tables by blast
qed

theorem calculate_ip_tax_piecewise_linear_witness:
  "calculate_ip_tax 0 ''Valencia'' = 0
   \<and> calculate_ip_tax (-5) ''Valencia'' = 0
   \<and> calculate_ip_tax 200000 ''Valencia'' \<le> calculate_ip_tax 300000 ''Valencia''
   \<and> calculate_ip_tax 300000 ''Valencia'' - calculate_ip_tax 200000 ''Valencia''
       = 0.0035 * (300000 - 200000)
   \<and> valencia_scale \<in> ran regional_scales
   \<and> ascending_gap_free 0 valencia_scale"
proof -
  have key: "regional_scales ''Valencia'' = Some valencia_scale"
    by (simp add: regional_scales_def)
  have table: "valencia_scale \<in> ran regional_scales"
    using key by (rule ranI)
  have mem: "(167129.45, Some 334252.88, 0.0035) \<in> set (brackets_for ''Valencia'')"
    by (simp add: brackets_for_def regional_scales_def valencia_scale_def)
  have inb: "in_bracket 200000 (167129.45, Some 334252.88, 0.0035)"
    "in_bracket 300000 (167129.45, Some 334252.88, 0.0035)" by simp_all
  have le: "(200000::real) \<le> 300000" "(-5::real) \<le> 0" by simp_all
  note C = calculate_ip_tax_piecewise_linear[of "''Valencia''" "-5" 200000 300000]
  have slope: "\<forall>br \<in> set (brackets_for ''Valencia'').
      in_bracket 200000 br \<and> in_bracket 300000 br \<longrightarrow>
      calculate_ip_tax 300000 ''Valencia'' - calculate_ip_tax 200000 ''Valencia''
        = snd (snd br) * (300000 - 200000)"
    using C by blast
  have "calculate_ip_tax 300000 ''Valencia'' - calculate_ip_tax 200000 ''Valencia''
      = 0.0035 * (300000 - 200000)"
    using slope[rule_format, OF mem] inb by simp
  moreover have "calculate_ip_tax 0 ''Valencia'' = 0" "calculate_ip_tax (-5) ''Valencia'' = 0"
    "calculate_ip_tax 200000 ''Valencia'' \<le> calculate_ip_tax 300000 ''Valencia''"
    using C le by blast+
  moreover have "ascending_gap_free 0 valencia_scale"
    using C table by blast
  ultimately show ?thesis using table by blast
qed

lemma lower_char_not_capital:
  "lower_char c \<notin> set ''ABCDEFGHIJKLMNOPQRSTUVWXYZ''"
  by (simp add: lower_char_def split: option.splits if_splits)

lemma py_lower_not_key:
  "py_lower s \<notin> {''Catalonia'', ''Madrid'', ''Extremadura'', ''Galicia'', ''Asturias'', ''Valencia''}"
proof (cases s)
  case Nil
  then show ?thesis by (simp add: py_lower_def)
next
  case (Cons c cs)
  have "lower_char c \<notin> set ''ABCDEFGHIJKLMNOPQRSTUVWXYZ''"
    by (rule lower_char_not_capital)
  then have "lower_char c \<noteq> CHR ''C''" "lower_char c \<noteq> CHR ''M''" "lower_char c \<noteq> CHR ''E''"
    "lower_char c \<noteq> CHR ''G''" "lower_char c \<noteq> CHR ''A''" "lower_char c \<noteq> CHR ''V''"
    by simp_all
  then show ?thesis by (simp add: py_lower_def Cons)
qed

text \<open>
  Claim C10.  The region lookup compares the string as it is spelled: for every base and
  every region string that is none of the six capitalised keys the tax is the tax of the
  default table, and so it is for every lower-cased region name, which is what the rest
  of the pipeline produces.
\<close>

theorem region_lookup_case_sensitive:
  "(region \<notin> {''Catalonia'', ''Madrid'', ''Extremadura'', ''Galicia'', ''Asturias'', ''Valencia''}
      \<longrightarrow> calculate_ip_tax base region = calculate_ip_tax base ''default'')
   \<and> calculate_ip_tax base (py_lower region) = calculate_ip_tax base ''default''"
proof -
  have a: "\<And>r. r \<notin> {''Catalonia'', ''Madrid'', ''Extremadura'', ''Galicia'', ''Asturias'', ''Valencia''}
      \<Longrightarrow> brackets_for r = default_scale"
    by (simp add: brackets_for_def regional_scales_def)
  have d: "brackets_for ''default'' = default_scale"
    by (simp add: brackets_for_def regional_scales_def)
  show ?thesis using a[of region] a[OF py_lower_not_key[of region]] d
    by (simp add: calculate_ip_tax_def)
qed

theorem region_lookup_case_sensitive_witness:
  "calculate_ip_tax 20000000 ''catalonia'' = calculate_ip_tax 20000000 ''default''
   \<and> calculate_ip_tax 20000000 ''catalonia'' \<noteq> calculate_ip_tax 20000000 ''Catalonia''"
proof -
  have "calculate_ip_tax 20000000 ''Catalonia'' \<noteq> calculate_ip_tax 20000000 ''default''"
    by (simp add: calculate_ip_tax_def brackets_for_def regional_scales_def
        catalonia_scale_def default_scale_def)
  then show ?thesis
    using region_lookup_case_sensitive[of "''catalonia''" 20000000] by simp
qed

section \<open>Properties of the joint cap and of the result table\<close>

lemma example_before_cap:
  "run_tax_simulation_before_cap example_unit (1/2) =
    \<lparr>T_Region = ''catalonia'', T_Income = 95000, T_Wealth_Rank = 199 / 200,
     T_Final_Weight = 1, T_Real_Asset_Ratio = 3 / 10,
     T_Financial_Asset_Ratio = 7 / 10, T_Business_Asset_Ratio = 0,
     Adj_Net_Wealth = 18500000, Net_Tax_Base = 17700000, Is_Taxpayer = True,
     Erosion_Factor = 3 / 10, Dropout_Prob = 107 / 900, Dropout = 0,
     Taxable_Wealth_Baseline = 17700000, Taxable_Wealth_Eroded = 12390000,
     Wealth_Tax = 226020.39535, PIT_Liability = 33651.5, Cap = 57000,
     Migration_Prob = None, Migration_Exit = None, Wealth_Tax_Baseline = None\<rparr>"
  by code_simp

lemma example_after_cap:
  "run_tax_simulation example_unit (1/2) =
    \<lparr>T_Region = ''catalonia'', T_Income = 95000, T_Wealth_Rank = 199 / 200,
     T_Final_Weight = 1, T_Real_Asset_Ratio = 3 / 10,
     T_Financial_Asset_Ratio = 7 / 10, T_Business_Asset_Ratio = 0,
     Adj_Net_Wealth = 18500000, Net_Tax_Base = 17700000, Is_Taxpayer = True,
     Erosion_Factor = 3 / 10, Dropout_Prob = 107 / 900, Dropout = 0,
     Taxable_Wealth_Baseline = 17700000, Taxable_Wealth_Eroded = 12390000,
     Wealth_Tax = 45204.07907, PIT_Liability = 33651.5, Cap = 57000,
     Migration_Prob = None, Migration_Exit = None, Wealth_Tax_Baseline = None\<rparr>"
  by (simp add: run_tax_simulation_def example_before_cap Let_def joint_cap_def over_limit_def)

text \<open>
  Claim C1.  At both places where the cap is applied (the end of
  \<open>run_tax_simulation\<close> and \<open>apply_tax_cap_and_adjustments\<close>): when wealth tax plus
  income tax exceeds 60% of the income, then after the adjustment either wealth tax plus
  income tax is at most 60% of the income or the wealth tax is exactly 20% of its value
  before the cap; otherwise the wealth tax is unchanged.
\<close>

theorem joint_cap_single_shot:
  "(Wealth_Tax (run_tax_simulation_before_cap h u) + PIT_Liability (run_tax_simulation_before_cap h u)
      > 0.60 * T_Income (run_tax_simulation_before_cap h u) \<longrightarrow>
      Wealth_Tax (run_tax_simulation h u) + PIT_Liability (run_tax_simulation h u)
        \<le> 0.60 * T_Income (run_tax_simulation h u)
      \<or> Wealth_Tax (run_tax_simulation h u) = 0.2 * Wealth_Tax (run_tax_simulation_before_cap h u))
   \<and> (\<not> Wealth_Tax (run_tax_simulation_before_cap h u) + PIT_Liability (run_tax_simulation_before_cap h u)
        > 0.60 * T_Income (run_tax_simulation_before_cap h u) \<longrightarrow>
      Wealth_Tax (run_tax_simulation h u) = Wealth_Tax (run_tax_simulation_before_cap h u))
   \<and> (wealth_tax + pit > 0.60 * income \<longrightarrow>
      fst (snd (apply_tax_cap_and_adjustments income pit wealth_tax dw)) + pit \<le> 0.60 * income
      \<or> fst (snd (apply_tax_cap_and_adjustments income pit wealth_tax dw)) = 0.2 * wealth_tax)
   \<and> (\<not> wealth_tax + pit > 0.60 * income \<longrightarrow>
      fst (snd (apply_tax_cap_and_adjustments income pit wealth_tax dw)) = wealth_tax)"
  by (simp add: run_tax_simulation_def apply_tax_cap_and_adjustments_def joint_cap_def
      over_limit_def Let_def max_def)

theorem joint_cap_single_shot_witness:
  "Wealth_Tax (run_tax_simulation_before_cap example_unit (1/2))
      + PIT_Liability (run_tax_simulation_before_cap example_unit (1/2))
      > 0.60 * T_Income (run_tax_simulation_before_cap example_unit (1/2))
   \<and> Wealth_Tax (run_tax_simulation example_unit (1/2))
      = 0.2 * Wealth_Tax (run_tax_simulation_before_cap example_unit (1/2))
   \<and> 100 + 50 > 0.60 * (200::real)
   \<and> fst (snd (apply_tax_cap_and_adjustments 200 50 100 1)) + 50 \<le> 0.60 * (200::real)
   \<and> \<not> 10 + 50 > 0.60 * (200::real)
   \<and> fst (snd (apply_tax_cap_and_adjustments 200 50 10 1)) = 10"
proof -
  have a: "fst (snd (apply_tax_cap_and_adjustments 200 50 100 1)) = 70"
    by (simp add: apply_tax_cap_and_adjustments_def joint_cap_def over_limit_def)
  show ?thesis
    using joint_cap_single_shot[where h=example_unit and u="1/2" and wealth_tax=100
            and pit=50 and income=200 and dw=1]
          joint_cap_single_shot[where h=example_unit and u="1/2" and wealth_tax=10
            and pit=50 and income=200 and dw=1]
    by (simp add: example_before_cap example_after_cap a)
qed

text \<open>
  What holds of the result table: a dropout of the draw inside \<open>run_tax_simulation\<close>
  pays no wealth tax after the cap, a migration exit has eroded base 0 and wealth tax 0,
  and a unit whose lower-cased region is madrid has wealth tax 0.
\<close>

lemma joint_cap_zero: "joint_cap income pit 0 = 0"
  by (simp add: joint_cap_def over_limit_def max_def)

lemma before_cap_dropout_zero:
  "Dropout (run_tax_simulation_before_cap h u) > 0 \<Longrightarrow>
   Wealth_Tax (run_tax_simulation_before_cap h u) = 0"
  by (simp add: run_tax_simulation_before_cap_def split: prod.splits)

lemma before_cap_region: "T_Region (run_tax_simulation_before_cap h u) = Region h"
  by (simp add: run_tax_simulation_before_cap_def split: prod.split)

lemma run_tax_simulation_region: "T_Region (run_tax_simulation h u) = Region h"
  by (simp add: run_tax_simulation_def Let_def before_cap_region)

lemma first_draw_dropout_zero:
  "Dropout (run_tax_simulation h u) > 0 \<Longrightarrow> Wealth_Tax (run_tax_simulation h u) = 0"
  using before_cap_dropout_zero[of h u]
  by (simp add: run_tax_simulation_def Let_def joint_cap_zero)

lemma assign_erosion_keeps:
  "Wealth_Tax (assign_erosion m b u row) = Wealth_Tax row"
  "T_Region (assign_erosion m b u row) = T_Region row"
  by (simp_all add: assign_erosion_def split: prod.splits)

lemma migration_wealth_tax:
  "Wealth_Tax (apply_migration_module th bp bump u row) =
     (if Migration_Exit (apply_migration_module th bp bump u row) = Some True then 0
      else Wealth_Tax row)"
  "Migration_Exit (apply_migration_module th bp bump u row) = Some True \<Longrightarrow>
     Taxable_Wealth_Eroded (apply_migration_module th bp bump u row) = 0"
  by (cases "u < compute_prob th bp bump row"; simp add: apply_migration_module_def Let_def)+

lemma migration_exit_zeroes:
  "Migration_Exit (main_result_row h u1 u2 u3) = Some True \<Longrightarrow>
   Taxable_Wealth_Eroded (main_result_row h u1 u2 u3) = 0
   \<and> Wealth_Tax (main_result_row h u1 u2 u3) = 0"
  using migration_wealth_tax
  by (simp add: main_result_row_def Let_def)

lemma madrid_override:
  "py_lower (Region h) = ''madrid'' \<Longrightarrow> Wealth_Tax (main_result_row h u1 u2 u3) = 0"
  by (simp add: main_result_row_def Let_def migration_wealth_tax(1) assign_erosion_keeps
      run_tax_simulation_region)

lemma lower_catalonia: "py_lower ''catalonia'' = ''catalonia''"
  by code_simp

lemma example_second_draw:
  "assign_erosion_columns 0.30 True (1/20) (199/200) 0 (3/10) (7/10) 95000 18500000
     = (0.2825, 107/900, 1)"
  by (simp add: assign_erosion_columns_def base_erosion_def erosion_modifier_def
      dropout_prob_def binomial1_def Let_def)

text \<open>
  Claim C3.  The dropout part fails on the code: \<open>main\<close> calls \<open>assign_erosion\<close> a
  second time after the tax simulation, which draws the \<open>Dropout\<close> column again and
  leaves \<open>Wealth_Tax\<close> as it is.  For the example unit, not a dropout in the first draw
  (0.5), flagged in the second (0.05) and no migrant (0.9), the result row has
  \<open>Dropout = 1\<close> and a wealth tax of 45,204.07907.
\<close>

theorem dropout_flag_redrawn_after_zeroing:
  "Dropout (run_tax_simulation example_unit (1/2)) = 0
   \<and> Dropout (main_result_row example_unit (1/2) (1/20) (9/10)) = 1
   \<and> Migration_Exit (main_result_row example_unit (1/2) (1/20) (9/10)) = Some False
   \<and> Wealth_Tax (main_result_row example_unit (1/2) (1/20) (9/10)) = 45204.07907"
  using example_second_draw
  by (simp add: main_result_row_def example_after_cap Let_def lower_catalonia
      assign_erosion_def apply_migration_module_def
      compute_prob_def main_thresholds_def main_base_probs_def)

section \<open>Properties of the unit expander\<close>

lemma ratio_sum_append:
  "ratio_sum i col (xs @ ys) = ratio_sum i col xs + ratio_sum i col ys"
  by (simp add: ratio_sum_def)

lemma household_ratios_sum_to_one: "sum_list (ratios_loop [units] rng pos) = 1"
  by simp

lemma ratios_loop_length:
  "\<forall>n \<in> set ns. n = 1 \<or> n = 2 \<Longrightarrow> length (ratios_loop ns rng pos) = sum_list ns"
  by (induction ns arbitrary: pos) auto

lemma repeat_rows_length:
  "length ns = length df \<Longrightarrow> length (repeat_rows df ns) = sum_list ns"
  by (induction df ns rule: list_induct2') (auto simp: repeat_rows_def)

lemma ratio_sum_pairs:
  "length ns = length df \<Longrightarrow> \<forall>n \<in> set ns. n = 1 \<or> n = 2 \<Longrightarrow>
   ratio_sum i col (zip (repeat_rows df ns) (ratios_loop ns rng pos))
     = sum_list (map col (filter (\<lambda>h. Original_ID h = i) df))"
proof (induction df arbitrary: ns pos)
  case Nil
  then show ?case by (simp add: repeat_rows_def ratio_sum_def)
next
  case (Cons h df)
  then obtain n ns' where ns: "ns = n # ns'" by (cases ns) auto
  with Cons.prems have len: "length ns' = length df" and n: "n = 1 \<or> n = 2"
    and rest: "\<forall>n \<in> set ns'. n = 1 \<or> n = 2" by auto
  have rep: "repeat_rows (h # df) ns = replicate n h @ repeat_rows df ns'"
    by (simp add: ns repeat_rows_def)
  show ?case
  proof (cases "n = 2")
    case True
    define a b where "a = (if rng pos < 0.5 then 0.8 else 0.9 :: real)"
      and "b = (if rng pos < 0.5 then 0.2 else 0.1 :: real)"
    have ab: "a + b = 1" by (simp add: a_def b_def)
    have rl: "ratios_loop ns rng pos = [a, b] @ ratios_loop ns' rng (pos + 1)"
      by (simp add: ns True a_def b_def)
    have "zip (repeat_rows (h # df) ns) (ratios_loop ns rng pos)
        = [(h, a), (h, b)] @ zip (repeat_rows df ns') (ratios_loop ns' rng (pos + 1))"
      by (simp add: rep rl True numeral_2_eq_2)
    then have "ratio_sum i col (zip (repeat_rows (h # df) ns) (ratios_loop ns rng pos))
        = ratio_sum i col [(h, a), (h, b)]
          + sum_list (map col (filter (\<lambda>h. Original_ID h = i) df))"
      using Cons.IH[OF len rest] by (simp add: ratio_sum_append del: append.simps)
    moreover have "ratio_sum i col [(h, a), (h, b)] = (if Original_ID h = i then col h else 0)"
      using ab by (simp add: ratio_sum_def distrib_left[symmetric])
    ultimately show ?thesis by simp
  next
    case False
    with n have n1: "n = 1" by simp
    have rl: "ratios_loop ns rng pos = [1] @ ratios_loop ns' rng pos"
      by (simp add: ns n1)
    have "zip (repeat_rows (h # df) ns) (ratios_loop ns rng pos)
        = [(h, 1)] @ zip (repeat_rows df ns') (ratios_loop ns' rng pos)"
      by (simp add: rep rl n1)
    then have "ratio_sum i col (zip (repeat_rows (h # df) ns) (ratios_loop ns rng pos))
        = ratio_sum i col [(h, 1)]
          + sum_list (map col (filter (\<lambda>h. Original_ID h = i) df))"
      using Cons.IH[OF len rest] by (simp add: ratio_sum_append del: append.simps)
    then show ?thesis by (simp add: ratio_sum_def)
  qed
qed

lemma distinct_filter_single:
  "distinct (map Original_ID df) \<Longrightarrow> h \<in> set df \<Longrightarrow>
   sum_list (map col (filter (\<lambda>h'. Original_ID h' = Original_ID h) df)) = col h"
proof (induction df)
  case Nil
  then show ?case by simp
next
  case (Cons a df)
  show ?case
  proof (cases "a = h")
    case True
    with Cons.prems have "Original_ID h \<notin> Original_ID ` set df" by simp
    then have "\<forall>h' \<in> set df. Original_ID h' \<noteq> Original_ID h" by (metis imageI)
    then have "filter (\<lambda>h'. Original_ID h' = Original_ID h) df = []" by (simp add: filter_empty_conv)
    with True show ?thesis by simp
  next
    case False
    with Cons.prems have "h \<in> set df" "Original_ID a \<noteq> Original_ID h" by auto
    with Cons show ?thesis by simp
  qed
qed

lemma split_from_scaled: "Split_From (scaled_unit h r i) = Original_ID h"
  by (simp add: scaled_unit_def)

lemma units_column_sum:
  assumes "length ratios = length repeated" "length idx = length repeated"
    and "\<And>h r i. colU (scaled_unit h r i) = colH h * r"
  shows "column_sum colU (units_of i (map (\<lambda>(h, ratio, idx). scaled_unit h ratio idx)
            (zip repeated (zip ratios idx))))
         = ratio_sum i colH (zip repeated ratios)"
  using assms(1,2)
proof (induction repeated arbitrary: ratios idx)
  case Nil
  then show ?case by (simp add: column_sum_def units_of_def ratio_sum_def)
next
  case (Cons h repeated)
  then obtain r rs j js where "ratios = r # rs" "idx = j # js"
    by (cases ratios; cases idx) auto
  with Cons assms(3) show ?case
    by (simp add: column_sum_def units_of_def ratio_sum_def split_from_scaled)
qed

text \<open>
  Claim C6.  For every household of a frame with distinct ids the expander returns (the
  length check never fails), and over the units derived from the household the weights
  sum to the household's weight and each of the seven monetary columns sums to the
  household's value.
\<close>

theorem expander_preserves_household_totals:
  assumes "distinct (map Original_ID df)" "h \<in> set df"
  shows "\<exists>units. expand_households_to_individuals df base_threshold split_prob rng = Inr units
     \<and> column_sum Weight (units_of (Original_ID h) units) = Weight h
     \<and> column_sum H_Total_Assets (units_of (Original_ID h) units) = H_Total_Assets h
     \<and> column_sum Debts (units_of (Original_ID h) units) = Debts h
     \<and> column_sum Real_Assets (units_of (Original_ID h) units) = Real_Assets h
     \<and> column_sum Financial_Assets (units_of (Original_ID h) units) = Financial_Assets h
     \<and> column_sum Business_Assets (units_of (Original_ID h) units) = Business_Assets h
     \<and> column_sum H_Income (units_of (Original_ID h) units) = H_Income h
     \<and> column_sum Net_Wealth (units_of (Original_ID h) units) = Net_Wealth h"
proof -
  define ns where "ns = n_units_column (split_column base_threshold split_prob rng df)"
  define repeated where "repeated = repeat_rows df ns"
  define ratios where "ratios = ratios_loop ns rng (length df)"
  define idx where "idx = cumcount (map Original_ID repeated)"
  define units where "units = map (\<lambda>(h, ratio, idx). scaled_unit h ratio idx)
      (zip repeated (zip ratios idx))"
  have len: "length ns = length df"
    by (simp add: ns_def n_units_column_def split_column_def)
  have vals: "\<forall>n \<in> set ns. n = 1 \<or> n = 2"
    by (auto simp: ns_def n_units_column_def)
  have l1: "length ratios = length repeated"
    using ratios_loop_length[OF vals] repeat_rows_length[OF len]
    by (simp add: ratios_def repeated_def)
  have l2: "length idx = length repeated"
    by (simp add: idx_def cumcount_def)
  have res: "expand_households_to_individuals df base_threshold split_prob rng = Inr units"
    using l1 by (simp add: expand_households_to_individuals_def Let_def units_def
        ns_def[symmetric] repeated_def[symmetric] ratios_def[symmetric] idx_def[symmetric])
  have col: "column_sum colU (units_of (Original_ID h) units) = colH h"
    if "\<And>h r i. colU (scaled_unit h r i) = colH h * r" for colU colH
    using units_column_sum[OF l1 l2 that, of "Original_ID h"]
      ratio_sum_pairs[OF len vals, of "Original_ID h" colH rng "length df"]
      distinct_filter_single[OF assms, of colH]
    by (simp add: units_def repeated_def ratios_def)
  show ?thesis
    using res col[of Weight Weight] col[of H_Total_Assets H_Total_Assets] col[of Debts Debts]
      col[of Real_Assets Real_Assets] col[of Financial_Assets Financial_Assets]
      col[of Business_Assets Business_Assets] col[of H_Income H_Income]
      col[of Net_Wealth Net_Wealth]
    by (simp add: scaled_unit_def)
qed

theorem expander_preserves_household_totals_witness:
  "distinct (map Original_ID [example_household_1, example_household_2])
   \<and> example_household_1 \<in> set [example_household_1, example_household_2]
   \<and> (\<exists>units. expand_households_to_individuals [example_household_1, example_household_2]
                   1000000 (7/10) (\<lambda>i. 2/5) = Inr units
        \<and> map Weight units = [4/5, 1/5, 1]
        \<and> column_sum Weight (units_of 0 units) = 1
        \<and> column_sum Net_Wealth (units_of 0 units) = 1500000)"
proof -
  have d: "distinct (map Original_ID [example_household_1, example_household_2])"
    by (simp add: example_household_1_def example_household_2_def)
  have m: "example_household_1 \<in> set [example_household_1, example_household_2]" by simp
  obtain units where u: "expand_households_to_individuals [example_household_1, example_household_2]
                   1000000 (7/10) (\<lambda>i. 2/5) = Inr units"
     and s: "column_sum Weight (units_of (Original_ID example_household_1) units) = Weight example_household_1"
       "column_sum Net_Wealth (units_of (Original_ID example_household_1) units) = Net_Wealth example_household_1"
    using expander_preserves_household_totals[OF d m, of 1000000 "7/10" "\<lambda>i. 2/5"] by blast
  have e: "map Weight (projr (expand_households_to_individuals [example_household_1, example_household_2]
                   1000000 (7/10) (\<lambda>i. 2/5))) = [4/5, 1/5, 1]"
    by code_simp
  show ?thesis using d m u s e by (simp add: example_household_1_def)
qed

section \<open>Properties of the population synthesizer\<close>

text \<open>
  What holds for every input: the adjusted counts sum to the total, and a returned frame
  has as many rows as the total.
\<close>

lemma idxmax_loop_bound:
  "best_pos < pos \<Longrightarrow> idxmax_loop xs pos best_pos best < pos + length xs"
proof (induction xs arbitrary: pos best_pos best)
  case Nil
  then show ?case by simp
next
  case (Cons x xs)
  have "idxmax_loop xs (pos + 1) pos x < pos + 1 + length xs"
    by (rule Cons.IH) simp
  moreover have "idxmax_loop xs (pos + 1) best_pos best < pos + 1 + length xs"
    by (rule Cons.IH) (use Cons.prems in simp)
  ultimately show ?case by simp
qed

lemma idxmax_bound: "xs \<noteq> [] \<Longrightarrow> idxmax xs < length xs"
proof (cases xs)
  case Nil
  then show "xs \<noteq> [] \<Longrightarrow> ?thesis" by simp
next
  case (Cons x rest)
  show ?thesis using idxmax_loop_bound[of 0 1 rest x] by (simp add: Cons idxmax_def)
qed

lemma sum_list_update_add:
  "i < length xs \<Longrightarrow> sum_list (xs[i := xs ! i + d]) = sum_list xs + (d::int)"
  by (induction xs arbitrary: i) (auto split: nat.splits)

lemma household_counts_sum:
  "num_households df n_total = Inr num \<Longrightarrow> sum_list num = n_total"
  by (auto simp: num_households_def Let_def sum_list_update_add idxmax_bound split: if_splits)

lemma length_concat_replicate:
  "length df = length num \<Longrightarrow> \<forall>c \<in> set num. 0 \<le> c \<Longrightarrow>
   int (length (concat (map (\<lambda>((region, population), c). replicate (nat c) region) (zip df num))))
     = sum_list num"
  by (induction df num rule: list_induct2) (auto split: prod.splits)

lemma num_households_length:
  "num_households df n_total = Inr num \<Longrightarrow> length num = length df"
proof -
  have "length (num_households_rounded df n_total) = length df"
    by (simp add: num_households_rounded_def)
  then show "num_households df n_total = Inr num \<Longrightarrow> length num = length df"
    by (auto simp: num_households_def Let_def split: if_splits)
qed

lemma generated_rows_count:
  assumes "generate_scaled_households df n avg rng = Inr rows"
  shows "int (length rows) = total_households n avg"
proof -
  from assms obtain num where num: "num_households df (total_households n avg) = Inr num"
    and nonneg: "\<not> list_ex (\<lambda>c. c < 0) num" and t: "\<not> total_households n avg < 0"
    by (auto simp: generate_scaled_households_def Let_def split: if_splits sum.splits)
  have "\<forall>c \<in> set num. 0 \<le> c" using nonneg by (auto simp: list_ex_iff)
  then have "int (length (concat (map (\<lambda>((region, population), c). replicate (nat c) region) (zip df num))))
     = total_households n avg"
    using length_concat_replicate[of df num] num_households_length[OF num] household_counts_sum[OF num]
    by simp
  with assms num nonneg t show ?thesis
    by (auto simp: generate_scaled_households_def Let_def split: if_splits)
qed

text \<open>
  Claim C8.  The claim fails where the residual exceeds the largest count: with eight
  regions of share 0.125 and a population of 19 (average size 1.6) the total is 12, each
  share times the total is 1.5 and rounds to 2, the residual is -4, the first region's
  count becomes -2, and \<open>np.repeat\<close> raises instead of generating the 12 rows.
\<close>

theorem household_rows_not_generated:
  "sum_list (map snd eight_regions) = 1
   \<and> total_households 19 1.6 = 12
   \<and> num_households_rounded eight_regions 12 = [2, 2, 2, 2, 2, 2, 2, 2]
   \<and> num_households eight_regions 12 = Inr [-2, 2, 2, 2, 2, 2, 2, 2]
   \<and> generate_scaled_households eight_regions 19 1.6 half_draws = Inl NegativeRepeats"
proof -
  have r: "py_round (0.125 * 12) = 2" "py_round (19 / 1.6) = 12"
    by (simp_all add: py_round_def Let_def)
  have t: "total_households 19 1.6 = 12" using r by (simp add: total_households_def)
  have n0: "num_households_rounded eight_regions 12 = [2, 2, 2, 2, 2, 2, 2, 2]"
    using r by (simp add: num_households_rounded_def eight_regions_def)
  have n1: "num_households eight_regions 12 = Inr [-2, 2, 2, 2, 2, 2, 2, 2]"
    by (simp add: num_households_def n0 idxmax_def Let_def)
  show ?thesis using t n0 n1
    by (simp add: generate_scaled_households_def eight_regions_def)
qed

section \<open>Properties of the weight rescaling\<close>

lemma regional_declarants_filter:
  "map fst (filter snd (zip df (taxpayer_mask region df)))
     = filter (\<lambda>r. T_Region r = region \<and> Is_Taxpayer r) df"
  by (induction df) (auto simp: taxpayer_mask_def)

lemma scale_loop_length:
  "length scaled = length df \<Longrightarrow> length (scale_loop targets df scaled) = length df"
proof (induction targets arbitrary: scaled)
  case Nil
  then show ?case by simp
next
  case (Cons a targets)
  obtain region target_count where a: "a = (region, target_count)" by (cases a)
  have "length (map (\<lambda>(s, m). if m then s * c else s) (zip scaled (taxpayer_mask region df)))
      = length df" for c
    using Cons.prems by (simp add: taxpayer_mask_def)
  with Cons show ?case by (simp add: a Let_def)
qed

lemma scale_loop_unchanged:
  "length scaled = length df \<Longrightarrow> i < length df \<Longrightarrow>
   \<forall>(region, t) \<in> set targets.
      \<not> (T_Region (df ! i) = region \<and> Is_Taxpayer (df ! i)) \<or> no_simulated_taxpayers region df \<Longrightarrow>
   scale_loop targets df scaled ! i = scaled ! i"
proof (induction targets arbitrary: scaled)
  case Nil
  then show ?case by simp
next
  case (Cons a targets)
  obtain region target_count where a: "a = (region, target_count)" by (cases a)
  have rest: "\<forall>(region, t) \<in> set targets.
      \<not> (T_Region (df ! i) = region \<and> Is_Taxpayer (df ! i)) \<or> no_simulated_taxpayers region df"
    using Cons.prems(3) by simp
  show ?case
  proof (cases "no_simulated_taxpayers region df")
    case True
    have "scale_loop (a # targets) df scaled = scale_loop targets df scaled"
      unfolding a scale_loop.simps Let_def regional_declarants_filter
      using True by (auto simp: no_simulated_taxpayers_def Let_def)
    then show ?thesis using Cons.IH[OF Cons.prems(1,2) rest] by simp
  next
    case False
    then have nomask: "\<not> (T_Region (df ! i) = region \<and> Is_Taxpayer (df ! i))"
      using Cons.prems(3) by (simp add: a)
    define scaled' where "scaled' =
        map (\<lambda>(s, m). if m then s * (target_count / sum_list (map T_Final_Weight
                (filter (\<lambda>r. T_Region r = region \<and> Is_Taxpayer r) df))) else s)
            (zip scaled (taxpayer_mask region df))"
    have len: "length scaled' = length df"
      using Cons.prems(1) by (simp add: scaled'_def taxpayer_mask_def)
    have same: "scaled' ! i = scaled ! i"
      using Cons.prems(1,2) nomask by (auto simp: scaled'_def taxpayer_mask_def)
    have "scale_loop (a # targets) df scaled = scale_loop targets df scaled'"
      unfolding a scale_loop.simps Let_def regional_declarants_filter
      using False by (simp add: no_simulated_taxpayers_def Let_def scaled'_def)
    then show ?thesis using Cons.IH[OF len Cons.prems(2) rest] same by simp
  qed
qed

lemma scale_final_weights_nth:
  assumes "i < length df0"
  shows "T_Final_Weight (scale_final_weights_by_taxpayer_counts df0 targets ! i)
     = scale_loop targets (map normalize_region df0) (map T_Final_Weight df0) ! i"
proof -
  have w: "map T_Final_Weight (map normalize_region df0) = map T_Final_Weight df0"
    by (simp add: normalize_region_def)
  have len: "length (scale_loop targets (map normalize_region df0) (map T_Final_Weight df0))
      = length df0"
    using scale_loop_length[of "map T_Final_Weight df0" "map normalize_region df0" targets] by simp
  show ?thesis using assms len
    by (simp add: scale_final_weights_by_taxpayer_counts_def Let_def w del: map_map)
qed

lemma scale_final_weights_unchanged:
  assumes "i < length df0"
    and "\<forall>(region, t) \<in> set targets.
      \<not> (T_Region (normalize_region (df0 ! i)) = region \<and> Is_Taxpayer (df0 ! i))
      \<or> no_simulated_taxpayers region (map normalize_region df0)"
  shows "T_Final_Weight (scale_final_weights_by_taxpayer_counts df0 targets ! i)
     = T_Final_Weight (df0 ! i)"
proof -
  have t: "Is_Taxpayer (normalize_region r) = Is_Taxpayer r" for r
    by (simp add: normalize_region_def)
  have "scale_loop targets (map normalize_region df0) (map T_Final_Weight df0) ! i
      = map T_Final_Weight df0 ! i"
    using scale_loop_unchanged[of "map T_Final_Weight df0" "map normalize_region df0" i targets]
      assms by (simp add: t)
  then show ?thesis using assms(1) by (simp add: scale_final_weights_nth)
qed

text \<open>
  Claim C9.  The function returns a frame of the same length (the model has no raising
  branch: both skips are \<open>continue\<close>s).  For every region of the target map with a
  non-zero target and no simulated taxpayers (empty taxpayer subgroup or zero total
  taxpayer weight) every unit of that region keeps its final weight; and a unit that is
  no taxpayer, or whose region is no key of the target map, keeps its final weight in
  all cases.
\<close>

theorem zero_taxpayer_regions_skipped:
  "length (scale_final_weights_by_taxpayer_counts df0 targets) = length df0
   \<and> (\<forall>i < length df0. \<forall>(region, target_count) \<in> set targets.
        target_count \<noteq> 0 \<and> no_simulated_taxpayers region (map normalize_region df0)
        \<and> T_Region (normalize_region (df0 ! i)) = region \<longrightarrow>
        T_Final_Weight (scale_final_weights_by_taxpayer_counts df0 targets ! i)
          = T_Final_Weight (df0 ! i))
   \<and> (\<forall>i < length df0.
        \<not> (Is_Taxpayer (df0 ! i)
           \<and> T_Region (normalize_region (df0 ! i)) \<in> fst ` set targets) \<longrightarrow>
        T_Final_Weight (scale_final_weights_by_taxpayer_counts df0 targets ! i)
          = T_Final_Weight (df0 ! i))"
proof (intro conjI allI impI ballI)
  have "length (scale_loop targets (map normalize_region df0) (map T_Final_Weight df0))
      = length df0"
    using scale_loop_length[of "map T_Final_Weight df0" "map normalize_region df0" targets] by simp
  moreover have "map T_Final_Weight (map normalize_region df0) = map T_Final_Weight df0"
    by (simp add: normalize_region_def)
  ultimately show "length (scale_final_weights_by_taxpayer_counts df0 targets) = length df0"
    by (simp add: scale_final_weights_by_taxpayer_counts_def Let_def del: map_map)
next
  fix i x
  assume i: "i < length df0" and x: "x \<in> set targets"
  show "case x of (region, target_count) \<Rightarrow>
        target_count \<noteq> 0 \<and> no_simulated_taxpayers region (map normalize_region df0)
        \<and> T_Region (normalize_region (df0 ! i)) = region \<longrightarrow>
        T_Final_Weight (scale_final_weights_by_taxpayer_counts df0 targets ! i)
          = T_Final_Weight (df0 ! i)"
  proof (cases x)
    case (Pair region target_count)
    have "T_Final_Weight (scale_final_weights_by_taxpayer_counts df0 targets ! i)
          = T_Final_Weight (df0 ! i)"
      if "no_simulated_taxpayers region (map normalize_region df0)"
        and "T_Region (normalize_region (df0 ! i)) = region"
      using that by (intro scale_final_weights_unchanged[OF i]) auto
    then show ?thesis using Pair by simp
  qed
next
  fix i
  assume i: "i < length df0"
    and out: "\<not> (Is_Taxpayer (df0 ! i)
           \<and> T_Region (normalize_region (df0 ! i)) \<in> fst ` set targets)"
  show "T_Final_Weight (scale_final_weights_by_taxpayer_counts df0 targets ! i)
      = T_Final_Weight (df0 ! i)"
    using out by (intro scale_final_weights_unchanged[OF i]) force
qed

lemma scaling_frame_normalized:
  "map normalize_region scaling_frame = [scaling_row ''madrid'' False 2, scaling_row ''galicia'' True 3]"
  by code_simp

theorem zero_taxpayer_regions_skipped_witness:
  "(''madrid'', 100) \<in> set scaling_targets \<and> (100::real) \<noteq> 0
   \<and> no_simulated_taxpayers ''madrid'' (map normalize_region scaling_frame)
   \<and> T_Region (normalize_region (scaling_frame ! 0)) = ''madrid''
   \<and> T_Final_Weight (scale_final_weights_by_taxpayer_counts scaling_frame scaling_targets ! 0) = 2
   \<and> T_Final_Weight (scale_final_weights_by_taxpayer_counts scaling_frame scaling_targets ! 1) = 6
   \<and> length (scale_final_weights_by_taxpayer_counts scaling_frame scaling_targets) = 2"
proof -
  have h: "(''madrid'', 100) \<in> set scaling_targets" "0 < length scaling_frame"
    by (simp_all add: scaling_targets_def scaling_frame_def)
  have n: "no_simulated_taxpayers ''madrid'' (map normalize_region scaling_frame)"
    by (simp add: scaling_frame_normalized no_simulated_taxpayers_def scaling_row_def)
  have r: "T_Region (normalize_region (scaling_frame ! 0)) = ''madrid''"
    using scaling_frame_normalized by (simp add: scaling_frame_def scaling_row_def)
  have w: "T_Final_Weight (scaling_frame ! 0) = 2" "length scaling_frame = 2"
    by (simp_all add: scaling_frame_def scaling_row_def)
  have s: "T_Final_Weight (scale_final_weights_by_taxpayer_counts scaling_frame scaling_targets ! 1) = 6"
    by (simp add: scale_final_weights_by_taxpayer_counts_def scaling_frame_normalized Let_def
        scaling_targets_def taxpayer_mask_def scaling_row_def)
  have "T_Final_Weight (scale_final_weights_by_taxpayer_counts scaling_frame scaling_targets ! 0)
      = T_Final_Weight (scaling_frame ! 0)"
    using zero_taxpayer_regions_skipped[of scaling_frame scaling_targets] h n r by fastforce
  then show ?thesis
    using zero_taxpayer_regions_skipped[of scaling_frame scaling_targets] h n r w s by simp
qed

section \<open>Properties of the percentile-share reweighting\<close>

lemma sum_indicator_absent:
  "k \<notin> set keys \<Longrightarrow> (\<Sum>k'\<leftarrow>keys. if k' = k then x else (0::real)) = 0"
  by (induction keys) auto

lemma sum_indicator:
  "distinct keys \<Longrightarrow> k \<in> set keys \<Longrightarrow>
   (\<Sum>k'\<leftarrow>keys. if k' = k then x else (0::real)) = x"
  by (induction keys) (auto simp: sum_indicator_absent)

lemma sum_by_key:
  "distinct keys \<Longrightarrow> key ` set xs \<subseteq> set keys \<Longrightarrow>
   (\<Sum>k\<leftarrow>keys. sum_list (map f (filter (\<lambda>x. key x = k) xs))) = sum_list (map (f :: 'a \<Rightarrow> real) xs)"
proof (induction xs)
  case Nil
  then show ?case by simp
next
  case (Cons x xs)
  have "(\<Sum>k\<leftarrow>keys. sum_list (map f (filter (\<lambda>y. key y = k) (x # xs))))
      = (\<Sum>k\<leftarrow>keys. (if k = key x then f x else 0) + sum_list (map f (filter (\<lambda>y. key y = k) xs)))"
    by (intro arg_cong[where f=sum_list] map_cong) auto
  also have "\<dots> = (\<Sum>k\<leftarrow>keys. if k = key x then f x else 0)
      + (\<Sum>k\<leftarrow>keys. sum_list (map f (filter (\<lambda>y. key y = k) xs)))"
    by (simp add: sum_list_addf)
  also have "\<dots> = f x + sum_list (map f xs)"
    using Cons sum_indicator[of keys "key x" "f x"] by simp
  finally show ?case by simp
qed

lemma sorted_distinct_upto:
  assumes "sorted xs" "distinct xs" "set xs \<subseteq> {..<n}" "length xs = n"
  shows "xs = [0..<n]"
proof -
  have "card (set xs) = n" using assms(2,4) by (simp add: distinct_card)
  then have "set xs = {..<n}" using assms(3) by (simp add: card_subset_eq)
  then have "set xs = set [0..<n]" by (simp add: lessThan_atLeast0)
  then show ?thesis using assms(1,2) by (intro sorted_distinct_set_unique) simp_all
qed

lemma qcut_length: "qcut x q = Inr labels \<Longrightarrow> length labels = length x"
  by (auto simp: qcut_def Let_def split: if_splits)

lemma quantile_linear_top:
  assumes "v \<in> set x"
  shows "v \<le> quantile_linear x 1"
proof -
  have n: "0 < length x" using assms by (cases x) auto
  have lo: "nat \<lfloor>(real (length x) - 1) * 1\<rfloor> = length x - 1"
    using n by (simp add: of_nat_diff[symmetric] del: of_nat_diff)
  have lo': "nat \<lfloor>real (length x) - 1\<rfloor> = length x - 1"
    using lo by simp
  have q: "quantile_linear x 1 = sort x ! (length x - 1)"
    unfolding quantile_linear_def Let_def by (simp only: mult_1_right lo') simp
  from assms have "v \<in> set (sort x)" by simp
  then obtain i where i: "i < length (sort x)" "sort x ! i = v"
    unfolding in_set_conv_nth by blast
  have "sort x ! i \<le> sort x ! (length x - 1)"
    using i n by (intro sorted_nth_mono) auto
  then show ?thesis using i q by simp
qed

lemma qcut_labels_small:
  assumes "qcut x 10 = Inr labels" "l \<in> set labels"
  shows "l < 10"
proof -
  define bins where "bins = map (\<lambda>j. quantile_linear x (real j / real 10)) [0..<10 + 1]"
  have lb: "length bins = 11" by (simp add: bins_def)
  have top: "quantile_linear x 1 \<in> set bins"
  proof -
    have "(10::nat) \<in> set [0..<10 + 1]" by simp
    then have "quantile_linear x (real (10::nat) / real (10::nat)) \<in> set bins"
      unfolding bins_def set_map by (rule imageI)
    then show ?thesis by simp
  qed
  from assms(1) have labels: "labels = map (\<lambda>v. if v = hd bins then 0
      else length (filter (\<lambda>b. b < v) bins) - 1) x"
    by (auto simp: qcut_def Let_def bins_def split: if_splits)
  from assms(2) obtain v where v: "v \<in> set x"
    "l = (if v = hd bins then 0 else length (filter (\<lambda>b. b < v) bins) - 1)"
    by (auto simp: labels)
  have "\<not> quantile_linear x 1 < v" using quantile_linear_top[OF v(1)] by simp
  then have "length (filter (\<lambda>b. b < v) bins) < length bins"
    using top by (intro length_filter_less) auto
  then show ?thesis using v(2) lb by (auto split: if_splits)
qed

lemma reweight_rows:
  assumes "reweight_to_match_percentile_shares dataframe 10 = Inr rows"
  defines "keys \<equiv> remdups (sort (map Wealth_Percentile rows))"
    and "T \<equiv> sum_list (map Weighted_Wealth rows)"
  shows "length keys = 10"
    and "T = sum_list (map (\<lambda>(v, w). v * w) (filter (\<lambda>(v, w). v \<ge> 0) dataframe))"
    and "\<forall>r \<in> set rows. Weighted_Wealth r = Value_Col r * Weight_Col r"
    and "\<forall>r \<in> set rows. Adjusted_Weight r = np_mul (Fin (Weight_Col r))
          (if Wealth_Percentile r < 10
           then np_div (Fin (target_shares ! Wealth_Percentile r))
                  (np_div (Fin (bin_weighted rows (keys ! Wealth_Percentile r))) (Fin T))
           else NaN)"
    and "\<forall>r \<in> set rows. Wealth_Percentile r < 10"
proof -
  define df where "df = filter (\<lambda>(v, w). v \<ge> 0) dataframe"
  define ranks where "ranks = rank_pct (map fst df)"
  define ww where "ww = map (\<lambda>(v, w). v * w) df"
  from assms(1) obtain labels where q: "qcut ranks 10 = Inr labels"
    by (auto simp: reweight_to_match_percentile_shares_def Let_def df_def ranks_def
        split: sum.splits)
  define actual where "actual = actual_shares labels ww"
  from assms(1) q have la: "length actual = length target_shares"
    and rows: "rows = map (reweighted_row_of (scaling_factors actual)) (zip df (zip ranks labels))"
    by (auto simp: reweight_to_match_percentile_shares_def Let_def df_def[symmetric]
        ranks_def[symmetric] ww_def[symmetric] actual_def split: if_splits)
  have lt: "length target_shares = 10" by (simp add: target_shares_def target_shares_raw_def)
  have len: "length labels = length df" "length ranks = length df" "length ww = length df"
    using qcut_length[OF q] by (simp_all add: ranks_def rank_pct_def rank_first_def ww_def)
  have lrows: "length rows = length df" using len by (simp add: rows)
  have nth_row: "rows ! i = reweighted_row_of (scaling_factors actual) (df ! i, ranks ! i, labels ! i)"
    if "i < length df" for i
    using that len by (simp add: rows)
  have wp: "map Wealth_Percentile rows = labels"
    using len lrows nth_row
    by (intro nth_equalityI) (auto simp: reweighted_row_of_def Let_def split: prod.splits)
  have wwr: "map Weighted_Wealth rows = ww"
    using len lrows nth_row
    by (intro nth_equalityI) (auto simp: reweighted_row_of_def Let_def ww_def split: prod.splits)
  have pairs: "zip labels ww = map (\<lambda>r. (Wealth_Percentile r, Weighted_Wealth r)) rows"
  proof -
    have "zip (map Wealth_Percentile rows) (map Weighted_Wealth rows)
        = map (\<lambda>r. (Wealth_Percentile r, Weighted_Wealth r)) rows"
      by (induction rows) auto
    then show ?thesis by (simp only: wp wwr)
  qed
  have keys: "keys = remdups (sort labels)" by (simp add: keys_def wp)
  have grp: "groupby_sum labels ww = map (\<lambda>k. (k, bin_weighted rows k)) keys"
  proof -
    have "sum_list (map snd (filter (\<lambda>(k', v). k' = k) (zip labels ww))) = bin_weighted rows k" for k
      by (simp add: pairs bin_weighted_def filter_map o_def)
    then show ?thesis by (simp add: groupby_sum_def keys)
  qed
  have cover: "Wealth_Percentile ` set rows \<subseteq> set keys"
    by (auto simp: keys_def)
  have dk: "distinct keys" by (simp add: keys_def)
  have total: "sum_list (map snd (groupby_sum labels ww)) = T"
    using sum_by_key[OF dk cover, of Weighted_Wealth]
    by (simp add: grp o_def bin_weighted_def T_def)
  have act: "actual = map (\<lambda>k. np_div (Fin (bin_weighted rows k)) (Fin T)) keys"
    using total by (simp add: actual_def actual_shares_def Let_def grp o_def)
  show "length keys = 10" using la lt by (simp add: act)
  then have lk: "length keys = 10" .
  show "T = sum_list (map (\<lambda>(v, w). v * w) (filter (\<lambda>(v, w). v \<ge> 0) dataframe))"
    by (simp add: T_def wwr ww_def df_def)
  show "\<forall>r \<in> set rows. Weighted_Wealth r = Value_Col r * Weight_Col r"
    by (auto simp: rows reweighted_row_of_def Let_def)
  have sf: "length (scaling_factors actual) = 10"
    using la lt by (simp add: scaling_factors_def)
  have sfn: "scaling_factors actual ! l
      = np_div (Fin (target_shares ! l)) (np_div (Fin (bin_weighted rows (keys ! l))) (Fin T))"
    if "l < 10" for l
    using that lk lt by (simp add: scaling_factors_def act)
  show "\<forall>r \<in> set rows. Adjusted_Weight r = np_mul (Fin (Weight_Col r))
          (if Wealth_Percentile r < 10
           then np_div (Fin (target_shares ! Wealth_Percentile r))
                  (np_div (Fin (bin_weighted rows (keys ! Wealth_Percentile r))) (Fin T))
           else NaN)"
  proof
    fix r assume "r \<in> set rows"
    then obtain x where "r = reweighted_row_of (scaling_factors actual) x"
      by (auto simp: rows)
    then show "Adjusted_Weight r = np_mul (Fin (Weight_Col r))
          (if Wealth_Percentile r < 10
           then np_div (Fin (target_shares ! Wealth_Percentile r))
                  (np_div (Fin (bin_weighted rows (keys ! Wealth_Percentile r))) (Fin T))
           else NaN)"
      using sf sfn by (cases x) (auto simp: reweighted_row_of_def Let_def)
  qed
  have "set labels = Wealth_Percentile ` set rows" using wp by (metis set_map)
  then show "\<forall>r \<in> set rows. Wealth_Percentile r < 10"
    using qcut_labels_small[OF q] by auto
qed

lemma target_shares_sum: "sum_list target_shares = 1" "length target_shares = 10"
  by (simp_all add: target_shares_def target_shares_raw_def)

text \<open>
  Claim C4, as amended.  When the function returns (it raises unless all ten rank bins
  are populated), no bin has weighted value zero and the rows with a non-negative value
  have positive total weighted value, then every adjusted weight is finite and the share
  of every bin in the total of value times adjusted weight is the renormalised target
  share, exactly in real arithmetic and so within 1e-9, after the single pass.
\<close>

theorem reweighting_matches_targets:
  assumes ret: "reweight_to_match_percentile_shares dataframe 10 = Inr rows"
    and nz: "list_all (\<lambda>l. bin_weighted rows l \<noteq> 0) [0..<10]"
    and pos: "total_weighted_value (filter (\<lambda>(v, w). v \<ge> 0) dataframe) > 0"
    and k: "k < 10"
  shows "list_all (\<lambda>r. is_Fin (Adjusted_Weight r)) rows
    \<and> adjusted_share rows k = Some (target_shares ! k)"
proof -
  define keys where "keys = remdups (sort (map Wealth_Percentile rows))"
  define T where "T = sum_list (map Weighted_Wealth rows)"
  note R = reweight_rows[OF ret, folded keys_def T_def]
  have T0: "T > 0" using pos R(2) by (simp add: total_weighted_value_def)
  have small: "Wealth_Percentile r < 10" if "r \<in> set rows" for r
    using R(5) that by simp
  have W0: "bin_weighted rows l \<noteq> 0" if "l < 10" for l
    using nz that by (simp add: list_all_iff)
  have keys10: "keys = [0..<10]"
  proof (rule sorted_distinct_upto)
    show "sorted keys" by (simp add: keys_def sorted_remdups)
    show "distinct keys" by (simp add: keys_def)
    show "set keys \<subseteq> {..<10}" using small by (auto simp: keys_def)
    show "length keys = 10" by (rule R(1))
  qed
  have aw: "Adjusted_Weight r = Fin (Weight_Col r
        * (target_shares ! Wealth_Percentile r * T / bin_weighted rows (Wealth_Percentile r)))"
    if r: "r \<in> set rows" for r
  proof -
    have l: "Wealth_Percentile r < 10" by (rule small[OF r])
    have kl: "keys ! Wealth_Percentile r = Wealth_Percentile r" using l by (simp add: keys10)
    show ?thesis using R(4) r l W0[OF l] T0 by (simp add: kl)
  qed
  have fin: "list_all (\<lambda>r. is_Fin (Adjusted_Weight r)) rows"
    using aw by (simp add: list_all_iff)
  have adj: "adjusted_value r = Weighted_Wealth r
        * (target_shares ! Wealth_Percentile r * T / bin_weighted rows (Wealth_Percentile r))"
    if "r \<in> set rows" for r
    using aw[OF that] R(3) that by (simp add: adjusted_value_def)
  have bin: "sum_list (map adjusted_value (filter (\<lambda>r. Wealth_Percentile r = l) rows))
      = target_shares ! l * T" if l: "l < 10" for l
  proof -
    have "sum_list (map adjusted_value (filter (\<lambda>r. Wealth_Percentile r = l) rows))
        = sum_list (map (\<lambda>r. Weighted_Wealth r * (target_shares ! l * T / bin_weighted rows l))
            (filter (\<lambda>r. Wealth_Percentile r = l) rows))"
      by (intro arg_cong[where f=sum_list] map_cong) (auto simp: adj)
    also have "\<dots> = bin_weighted rows l * (target_shares ! l * T / bin_weighted rows l)"
      by (simp only: bin_weighted_def sum_list_mult_const)
    also have "\<dots> = target_shares ! l * T"
      using W0[OF l] by simp
    finally show ?thesis .
  qed
  have "sum_list (map adjusted_value rows)
      = (\<Sum>l\<leftarrow>keys. sum_list (map adjusted_value (filter (\<lambda>r. Wealth_Percentile r = l) rows)))"
    by (rule sum_by_key[symmetric]) (auto simp: keys_def)
  also have "\<dots> = (\<Sum>l\<leftarrow>[0..<10]. target_shares ! l * T)"
    unfolding keys10 by (intro arg_cong[where f=sum_list] map_cong) (auto simp: bin)
  also have "\<dots> = sum_list (map (\<lambda>l. target_shares ! l) [0..<length target_shares]) * T"
    by (simp add: sum_list_mult_const target_shares_sum(2))
  also have "\<dots> = T"
    by (simp only: map_nth target_shares_sum(1) mult_1)
  finally have all_value: "sum_list (map adjusted_value rows) = T" .
  show ?thesis
    using fin T0 bin[OF k] by (simp add: adjusted_share_def Let_def all_value)
qed

lemma ten_positive_eval:
  "map_sum id (map (\<lambda>r. (Wealth_Percentile r, Weighted_Wealth r)))
       (reweight_to_match_percentile_shares ten_positive_rows 10)
     = Inr [(0, 1), (1, 2), (2, 3), (3, 4), (4, 5), (5, 6), (6, 7), (7, 8), (8, 9), (9, 10)]"
  "total_weighted_value (filter (\<lambda>(v, w). v \<ge> 0) ten_positive_rows) > 0"
  by code_simp+

theorem reweighting_matches_targets_witness:
  "\<exists>rows. reweight_to_match_percentile_shares ten_positive_rows 10 = Inr rows
     \<and> list_all (\<lambda>l. bin_weighted rows l \<noteq> 0) [0..<10]
     \<and> total_weighted_value (filter (\<lambda>(v, w). v \<ge> 0) ten_positive_rows) > 0
     \<and> (3::nat) < 10
     \<and> list_all (\<lambda>r. is_Fin (Adjusted_Weight r)) rows
     \<and> adjusted_share rows 3 = Some (1 / 25)"
proof -
  obtain rows where r: "reweight_to_match_percentile_shares ten_positive_rows 10 = Inr rows"
    using ten_positive_eval(1)
    by (cases "reweight_to_match_percentile_shares ten_positive_rows 10") auto
  have cols: "map (\<lambda>r. (Wealth_Percentile r, Weighted_Wealth r)) rows
     = [(0, 1), (1, 2), (2, 3), (3, 4), (4, 5), (5, 6), (6, 7), (7, 8), (8, 9), (9, 10)]"
    using ten_positive_eval(1) by (simp add: r)
  have "bin_weighted rows l = sum_list (map snd (filter (\<lambda>p. fst p = l)
      (map (\<lambda>r. (Wealth_Percentile r, Weighted_Wealth r)) rows)))" for l
    by (simp add: bin_weighted_def filter_map o_def)
  then have nz: "list_all (\<lambda>l. bin_weighted rows l \<noteq> 0) [0..<10]"
    by (simp add: cols upt_rec)
  have t: "target_shares ! 3 = 1 / 25"
    by (simp add: target_shares_def target_shares_raw_def)
  show ?thesis
    using reweighting_matches_targets[OF r nz ten_positive_eval(2), of 3] r nz
      ten_positive_eval(2) t
    by simp
qed

text \<open>
  Claim C4 as stated, for any input of positive total weighted value, fails on the ten
  rows with values 0 to 9, where the lowest bin has weighted value 0 and its adjusted
  weight is NaN, and on a frame of two rows, where the function raises.
\<close>

theorem reweighting_share_counterexample:
  "total_weighted_value ten_rows > 0 \<and> \<not> shares_match_targets ten_rows
   \<and> map_sum id (map Adjusted_Weight) (reweight_to_match_percentile_shares ten_rows 10)
       = Inr [NaN, Fin (9 / 20), Fin (9 / 20), Fin (3 / 5), Fin (63 / 80), Fin (9 / 10),
              Fin (39 / 40), Fin (81 / 70), Fin (45 / 32), Fin 1]
   \<and> total_weighted_value two_rows > 0 \<and> \<not> shares_match_targets two_rows
   \<and> reweight_to_match_percentile_shares two_rows 10 = Inl PercentileMismatch"
  by code_simp

text \<open>
  Claim C7.  With total weighted value 0 the function does not raise, and it does not
  produce a neutral result either: for ten rows of value 0 and weight 1 every adjusted
  weight is NaN.
\<close>

theorem zero_total_gives_nan_weights:
  "total_weighted_value ten_zero_rows = 0
   \<and> map_sum id (map Adjusted_Weight) (reweight_to_match_percentile_shares ten_zero_rows 10)
       = Inr [NaN, NaN, NaN, NaN, NaN, NaN, NaN, NaN, NaN, NaN]"
  by code_simp

section \<open>Properties of the Pareto tail injection\<close>

lemma sum_list_insort_key:
  "sum_list (map f (insort_key k x xs)) = (f x :: real) + sum_list (map f xs)"
  by (induction xs) auto

lemma sum_list_sort_key: "sum_list (map f (sort_key k xs)) = sum_list (map (f :: 'a \<Rightarrow> real) xs)"
  by (induction xs) (auto simp: sum_list_insort_key)

lemma window_scale_finite:
  assumes "is_Fin (window_scale target sample weights)"
  shows "sum_list (map (\<lambda>(x, w). x * w) (zip sample weights)) \<noteq> 0
    \<and> the_Fin (window_scale target sample weights)
        = target / sum_list (map (\<lambda>(x, w). x * w) (zip sample weights))"
  using assms by (auto simp: window_scale_def split: if_splits)

lemma inject_row_columns:
  "Weight (inject_row r a) = Weight r" "H_Debt_Ratio (inject_row r a) = H_Debt_Ratio r"
  "H_Total_Assets (inject_row r a) = a"
  "Debts (inject_row r a) = a * H_Debt_Ratio r"
  "Net_Wealth (inject_row r a) = a - a * H_Debt_Ratio r"
  by (simp_all add: inject_row_def)

lemma fill_window_columns:
  "length sample = length rows \<Longrightarrow> length (fill_window rows sample s) = length rows"
  "length sample = length rows \<Longrightarrow> map Weight (fill_window rows sample s) = map Weight rows"
  "length sample = length rows \<Longrightarrow>
     map H_Debt_Ratio (fill_window rows sample s) = map H_Debt_Ratio rows"
  by (induction rows sample rule: list_induct2')
     (auto simp: fill_window_def inject_row_columns)

lemma fill_window_recomputed:
  "r \<in> set (fill_window rows sample s) \<Longrightarrow>
   Debts r = H_Total_Assets r * H_Debt_Ratio r \<and> Net_Wealth r = H_Total_Assets r - Debts r"
  by (auto simp: fill_window_def inject_row_columns)

lemma fill_window_assets:
  "length sample = length rows \<Longrightarrow>
   weighted_sum H_Total_Assets (fill_window rows sample s)
     = s * sum_list (map (\<lambda>(x, w). x * w) (zip sample (map Weight rows)))"
  by (induction rows sample rule: list_induct2')
     (auto simp: fill_window_def weighted_sum_def inject_row_columns algebra_simps)

lemma fill_window_net_wealth:
  "weighted_sum Net_Wealth (fill_window rows sample s)
     = sum_list (map (\<lambda>r. H_Total_Assets r * (1 - H_Debt_Ratio r) * Weight r)
         (fill_window rows sample s))"
  by (induction rows sample rule: list_induct2')
     (auto simp: fill_window_def weighted_sum_def inject_row_columns algebra_simps)

lemma top_n_le: "top1_n n \<le> top10_n n" "top10_n n \<le> n"
proof -
  have "\<lfloor>real n * 0.01\<rfloor> \<le> \<lfloor>real n * 0.10\<rfloor>" by (intro floor_mono) simp
  then show "top1_n n \<le> top10_n n" by (simp add: top1_n_def top10_n_def)
  have "\<lfloor>real n * 0.10\<rfloor> \<le> \<lfloor>real n\<rfloor>" by (intro floor_mono) simp
  then show "top10_n n \<le> n" by (simp add: top10_n_def)
qed

text \<open>
  Claim C5, as amended.  When every number the injection writes is finite, the frame
  keeps its length, the debt ratio and the weight of every row are unchanged, the rows of
  the top 10% have debts equal to assets times debt ratio and net wealth equal to assets
  minus debts, the other rows are untouched, and for each window that is not empty the
  aggregate of weight times total assets is the window's target share of the total net
  wealth before the injection (top 1%: the top-1% target; next 9%: the top-10% target
  minus the top-1% target).  The aggregate of weight times net wealth is the aggregate
  of weight times assets times one minus the debt ratio.
\<close>

theorem pareto_tail_calibrates_assets:
  assumes inj: "inject_calibrated_pareto_tail df0 t1 t10 pareto = Some out"
  shows "length out = length df0
   \<and> map H_Debt_Ratio out = map H_Debt_Ratio (sort_by_assets_desc df0)
   \<and> map Weight out = map Weight (sort_by_assets_desc df0)
   \<and> (\<forall>r \<in> set (take (top10_n (length df0)) out).
         Debts r = H_Total_Assets r * H_Debt_Ratio r
         \<and> Net_Wealth r = H_Total_Assets r - Debts r)
   \<and> drop (top10_n (length df0)) out = drop (top10_n (length df0)) (sort_by_assets_desc df0)
   \<and> (0 < top1_n (length df0) \<longrightarrow>
         weighted_sum H_Total_Assets (take (top1_n (length df0)) out)
           = t1 * sum_list (map Net_Wealth df0))
   \<and> (top1_n (length df0) < top10_n (length df0) \<longrightarrow>
         weighted_sum H_Total_Assets (drop (top1_n (length df0)) (take (top10_n (length df0)) out))
           = t10 * sum_list (map Net_Wealth df0) - t1 * sum_list (map Net_Wealth df0))
   \<and> weighted_sum Net_Wealth (take (top1_n (length df0)) out)
         = sum_list (map (\<lambda>r. H_Total_Assets r * (1 - H_Debt_Ratio r) * Weight r)
             (take (top1_n (length df0)) out))
   \<and> weighted_sum Net_Wealth (drop (top1_n (length df0)) (take (top10_n (length df0)) out))
         = sum_list (map (\<lambda>r. H_Total_Assets r * (1 - H_Debt_Ratio r) * Weight r)
             (drop (top1_n (length df0)) (take (top10_n (length df0)) out)))"
proof -
  define df where "df = sort_by_assets_desc df0"
  define n where "n = length (sort_by_assets_desc df0)"
  define n1 where "n1 = top1_n n"
  define n10 where "n10 = top10_n n"
  define total where "total = sum_list (map Net_Wealth (sort_by_assets_desc df0))"
  define rows1 where "rows1 = take n1 df"
  define rows10 where "rows10 = drop n1 (take n10 df)"
  define sample1 where "sample1 = map pareto [0..<n1]"
  define sample10 where "sample10 = map pareto [n1..<n1 + length rows10]"
  define scale1 where "scale1 = window_scale (t1 * total) sample1 (map Weight rows1)"
  define scale10 where "scale10 = window_scale (t10 * total - t1 * total) sample10 (map Weight rows10)"
  define w1 where "w1 = fill_window rows1 sample1 (the_Fin scale1)"
  define w10 where "w10 = fill_window rows10 sample10 (the_Fin scale10)"
  have ldf: "length df = n" by (simp add: df_def n_def)
  have n_eq: "n = length df0" by (simp add: n_def sort_by_assets_desc_def)
  have tot_eq: "total = sum_list (map Net_Wealth df0)"
    by (simp add: total_def sort_by_assets_desc_def sum_list_sort_key)
  have le: "n1 \<le> n10" "n10 \<le> n" using top_n_le by (simp_all add: n1_def n10_def)
  have unfolded: "inject_calibrated_pareto_tail df0 t1 t10 pareto =
      (if (rows1 \<noteq> [] \<and> \<not> is_Fin scale1) \<or> (rows10 \<noteq> [] \<and> \<not> is_Fin scale10) then None
       else Some (w1 @ w10 @ drop n10 df))"
    unfolding inject_calibrated_pareto_tail_def Let_def w1_def w10_def scale1_def scale10_def
      sample1_def sample10_def rows1_def rows10_def n1_def n10_def n_def total_def df_def
    by (rule refl)
  have out: "out = w1 @ w10 @ drop n10 df"
    and fin1: "rows1 \<noteq> [] \<Longrightarrow> is_Fin scale1"
    and fin10: "rows10 \<noteq> [] \<Longrightarrow> is_Fin scale10"
    using inj unfolding unfolded by (auto split: if_splits)
  have l1: "length rows1 = n1" "length sample1 = length rows1"
    using le ldf by (simp_all add: rows1_def sample1_def)
  have l10: "length rows10 = n10 - n1" "length sample10 = length rows10"
    using le ldf by (simp_all add: rows10_def sample10_def)
  have lw: "length w1 = n1" "length w10 = n10 - n1"
    using fill_window_columns(1)[OF l1(2)] fill_window_columns(1)[OF l10(2)] l1 l10
    by (simp_all add: w1_def w10_def)
  have split_df: "rows1 @ rows10 @ drop n10 df = df"
  proof -
    have "take n1 df = take n1 (take n10 df)" using le by (simp add: min_def)
    then have "rows1 @ rows10 = take n1 (take n10 df) @ drop n1 (take n10 df)"
      by (simp only: rows1_def rows10_def)
    then have "rows1 @ rows10 = take n10 df" by (simp only: append_take_drop_id)
    then show ?thesis by (metis append_assoc append_take_drop_id)
  qed
  have tk1: "take n1 out = w1" using lw by (simp add: out)
  have tk10: "take n10 out = w1 @ w10" using lw le by (simp add: out)
  have dr1: "drop n1 (take n10 out) = w10" using lw by (simp add: tk10)
  have dr10: "drop n10 out = drop n10 df" using lw le by (simp add: out)
  have "length out = length (rows1 @ rows10 @ drop n10 df)"
    using lw l1 l10 by (simp add: out)
  then have c1: "length out = n" by (simp add: split_df ldf)
  have "map H_Debt_Ratio out = map H_Debt_Ratio (rows1 @ rows10 @ drop n10 df)"
    using fill_window_columns(3)[OF l1(2)] fill_window_columns(3)[OF l10(2)]
    by (simp add: out w1_def w10_def)
  then have c2: "map H_Debt_Ratio out = map H_Debt_Ratio df" by (simp only: split_df)
  have "map Weight out = map Weight (rows1 @ rows10 @ drop n10 df)"
    using fill_window_columns(2)[OF l1(2)] fill_window_columns(2)[OF l10(2)]
    by (simp add: out w1_def w10_def)
  then have c3: "map Weight out = map Weight df" by (simp only: split_df)
  have c4: "\<forall>r \<in> set (take n10 out).
         Debts r = H_Total_Assets r * H_Debt_Ratio r \<and> Net_Wealth r = H_Total_Assets r - Debts r"
    using fill_window_recomputed by (auto simp: tk10 w1_def w10_def)
  have c6: "0 < n1 \<longrightarrow> weighted_sum H_Total_Assets (take n1 out) = t1 * total"
  proof
    assume "0 < n1"
    then have "rows1 \<noteq> []" using l1 by auto
    then have "is_Fin (window_scale (t1 * total) sample1 (map Weight rows1))"
      using fin1 by (simp add: scale1_def)
    from window_scale_finite[OF this]
    show "weighted_sum H_Total_Assets (take n1 out) = t1 * total"
      using fill_window_assets[OF l1(2), of "the_Fin scale1"]
      by (simp add: tk1 w1_def scale1_def)
  qed
  have c7: "n1 < n10 \<longrightarrow> weighted_sum H_Total_Assets (drop n1 (take n10 out))
      = t10 * total - t1 * total"
  proof
    assume "n1 < n10"
    then have "rows10 \<noteq> []" using l10 by auto
    then have "is_Fin (window_scale (t10 * total - t1 * total) sample10 (map Weight rows10))"
      using fin10 by (simp add: scale10_def)
    from window_scale_finite[OF this]
    show "weighted_sum H_Total_Assets (drop n1 (take n10 out)) = t10 * total - t1 * total"
      using fill_window_assets[OF l10(2), of "the_Fin scale10"]
      by (simp add: dr1 w10_def scale10_def)
  qed
  have c8: "weighted_sum Net_Wealth (take n1 out)
      = sum_list (map (\<lambda>r. H_Total_Assets r * (1 - H_Debt_Ratio r) * Weight r) (take n1 out))"
    using fill_window_net_wealth by (simp add: tk1 w1_def)
  have c9: "weighted_sum Net_Wealth (drop n1 (take n10 out))
      = sum_list (map (\<lambda>r. H_Total_Assets r * (1 - H_Debt_Ratio r) * Weight r)
          (drop n1 (take n10 out)))"
    using fill_window_net_wealth by (simp add: dr1 w10_def)
  show ?thesis
    using c1 c2 c3 c4 dr10 c6 c7 c8 c9
    unfolding n1_def n10_def df_def n_eq tot_eq
    by blast
qed

lemma hundred_units_sorted: "sort_by_assets_desc hundred_units = hundred_units"
proof -
  have "sorted (map (\<lambda>r. - H_Total_Assets r) hundred_units)"
    by (auto simp: hundred_units_def indebted_unit_def sorted_iff_nth_mono)
  then show ?thesis by (simp only: sort_by_assets_desc_def sort_key_id_if_sorted)
qed

lemma hundred_units_facts:
  "length hundred_units = 100" "top1_n 100 = 1" "top10_n 100 = 10"
  by (simp add: hundred_units_def, simp add: top1_n_def, simp add: top10_n_def)

lemma indebted_net_wealth: "Net_Wealth (indebted_unit i) = (200 - real i) / 2"
  by (simp add: indebted_unit_def)

lemma net_wealth_upto:
  "sum_list (map (\<lambda>i. Net_Wealth (indebted_unit i)) [0..<n])
     = 100 * real n - real n * (real n - 1) / 4"
  by (induction n) (simp_all add: indebted_net_wealth field_simps)

lemma hundred_units_total: "sum_list (map Net_Wealth hundred_units) = 7525"
  using net_wealth_upto[of 100] by (simp add: hundred_units_def o_def)

lemma hundred_units_windows:
  "take 1 hundred_units = [indebted_unit 0]"
  "drop 1 (take 10 hundred_units) = map indebted_unit [Suc 0..<10]"
  "drop 10 hundred_units = map indebted_unit [10..<100]"
  by (simp_all add: hundred_units_def take_map drop_map upt_rec[of 0 1])

lemma upt_1_10: "[Suc 0..<10] = [1, 2, 3, 4, 5, 6, 7, 8, 9]"
  by (simp add: upt_rec)

lemma indebted_weight: "Weight (indebted_unit i) = 1" "H_Debt_Ratio (indebted_unit i) = 1/2"
  by (simp_all add: indebted_unit_def)

lemma hundred_units_injected:
  "inject_calibrated_pareto_tail hundred_units (1/5) (1/2) (\<lambda>i. 1)
     = Some (fill_window [indebted_unit 0] [1] 1505
             @ fill_window (map indebted_unit [Suc 0..<10]) [1, 1, 1, 1, 1, 1, 1, 1, 1] (1505 / 6)
             @ map indebted_unit [10..<100])"
proof -
  have s1: "window_scale (1/5 * 7525) (map (\<lambda>i. 1) [0..<1]) (map Weight [indebted_unit 0]) = Fin 1505"
    by (simp add: window_scale_def indebted_weight)
  have m: "map (\<lambda>i. 1::real) [Suc 0..<10] = [1, 1, 1, 1, 1, 1, 1, 1, 1]"
    by (simp add: upt_1_10)
  have s10: "window_scale (1/2 * 7525 - 1/5 * 7525) [1, 1, 1, 1, 1, 1, 1, 1, 1]
      (map Weight (map indebted_unit [Suc 0..<10])) = Fin (1505 / 6)"
    by (simp add: window_scale_def indebted_weight upt_1_10)
  show ?thesis
    unfolding inject_calibrated_pareto_tail_def Let_def hundred_units_sorted hundred_units_facts
      hundred_units_total hundred_units_windows
    using s1 s10 m by simp
qed

lemma hundred_units_net_wealth:
  "weighted_sum Net_Wealth (fill_window [indebted_unit 0] [1] 1505) = 1505 / 2"
  "weighted_sum Net_Wealth
     (fill_window (map indebted_unit [Suc 0..<10]) [1, 1, 1, 1, 1, 1, 1, 1, 1] (1505 / 6)) = 4515 / 4"
  by (simp_all add: weighted_sum_def fill_window_def upt_1_10 inject_row_def indebted_weight)

theorem pareto_tail_calibrates_assets_witness:
  "\<exists>out. inject_calibrated_pareto_tail hundred_units (1/5) (1/2) (\<lambda>i. 1) = Some out
     \<and> length out = 100
     \<and> weighted_sum H_Total_Assets (take 1 out) = 1505
     \<and> weighted_sum H_Total_Assets (drop 1 (take 10 out)) = 4515 / 2"
proof -
  obtain out where out: "inject_calibrated_pareto_tail hundred_units (1/5) (1/2) (\<lambda>i. 1) = Some out"
    by (simp add: hundred_units_injected)
  show ?thesis
    using pareto_tail_calibrates_assets[OF out] out
    by (simp add: hundred_units_facts hundred_units_total)
qed

text \<open>
  Claim C5 as stated, with net wealth as the calibrated aggregate, fails for a hundred
  units that owe half of their assets: the targets are 1505 and 2257.5, the windows'
  weighted net wealth is 752.5 and 1128.75.
\<close>

theorem pareto_net_wealth_counterexample:
  "map_option window_net_wealth
     (inject_calibrated_pareto_tail hundred_units (1/5) (1/2) unit_draws)
   = Some (1505 / 2, 4515 / 4)
   \<and> 1/5 * sum_list (map Net_Wealth hundred_units) = 1505
   \<and> (1/2 - 1/5) * sum_list (map Net_Wealth hundred_units) = 4515 / 2"
proof -
  have l: "length (fill_window [indebted_unit 0] [1] 1505) = 1"
    "length (fill_window (map indebted_unit [Suc 0..<10]) [1, 1, 1, 1, 1, 1, 1, 1, 1] (1505 / 6)) = 9"
    by (simp_all add: fill_window_def)
  show ?thesis
    using l by (simp add: unit_draws_def window_net_wealth_def hundred_units_injected
        hundred_units_facts hundred_units_total hundred_units_net_wealth)
qed

end
